theory Spec2Isabelle
  imports Complex_Main
begin

section \<open>Tensors as nested lists over exact arithmetic\<close>

text \<open>
  The agent of \<^verbatim>\<open>noisy_iqn_pal2.py\<close> computes on PyTorch tensors. The embedding keeps the
  shapes and the indexing of every tensor operation of the source and replaces the
  floating-point numbers by \<^typ>\<open>real\<close>: a tensor of shape \<open>(n,)\<close> or \<open>(n, 1)\<close> is a
  \<^typ>\<open>real list\<close>, a tensor of shape \<open>(n, m)\<close> is a list of rows, a tensor of shape
  \<open>(n, m, k)\<close> a list of such. Rounding, infinities and NaN are outside the embedding.
  Every exception a tensor operation raises is a value \<open>Inl e\<close>.
\<close>

datatype error =
  ShapeMismatch
  | RankMismatch
  | IndexOutOfRange
  | InvalidDim
  | EmptyReduction
  | NonFinite
  | PyValueError
  | PyZeroDivisionError

definition ebind :: "error + 'a \<Rightarrow> ('a \<Rightarrow> error + 'b) \<Rightarrow> error + 'b" where
  "ebind m f = (case m of Inl e \<Rightarrow> Inl e | Inr x \<Rightarrow> f x)"

fun sequence :: "(error + 'a) list \<Rightarrow> error + 'a list" where
  "sequence [] = Inr []"
| "sequence (m # ms) =
     (case m of
        Inl e \<Rightarrow> Inl e
      | Inr x \<Rightarrow> (case sequence ms of Inl e \<Rightarrow> Inl e | Inr xs \<Rightarrow> Inr (x # xs)))"

text \<open>
  Elementwise operations broadcast along one axis: equal sizes are combined pointwise, a
  size-one operand is stretched, any other pair of sizes raises.
\<close>

definition broadcast :: "('a \<Rightarrow> 'b \<Rightarrow> error + 'c) \<Rightarrow> 'a list \<Rightarrow> 'b list \<Rightarrow> error + 'c list" where
  "broadcast f xs ys =
     (if length xs = length ys then sequence (map2 f xs ys)
      else if length xs = 1 then sequence (map (f (hd xs)) ys)
      else if length ys = 1 then sequence (map (\<lambda>x. f x (hd ys)) xs)
      else Inl ShapeMismatch)"

definition bop :: "('a \<Rightarrow> 'b \<Rightarrow> 'c) \<Rightarrow> 'a list \<Rightarrow> 'b list \<Rightarrow> error + 'c list" where
  "bop f = broadcast (\<lambda>x y. Inr (f x y))"

definition bop2 :: "('a \<Rightarrow> 'b \<Rightarrow> 'c) \<Rightarrow> 'a list list \<Rightarrow> 'b list list \<Rightarrow> error + 'c list list" where
  "bop2 f = broadcast (bop f)"

text \<open>
  A float division by zero and a mean over an empty axis raise nothing in the source: they
  yield an infinity or NaN. The reals have neither, so the embedding stops such a run
  with \<open>NonFinite\<close> where the value would be used.
\<close>

definition fdiv :: "real \<Rightarrow> real \<Rightarrow> error + real" where
  "fdiv x y = (if y = 0 then Inl NonFinite else Inr (x / y))"

definition mean :: "real list \<Rightarrow> real" where
  "mean xs = sum_list xs / real (length xs)"

text \<open>\<^verbatim>\<open>torch.nn.LeakyReLU()\<close> with its default slope \<open>0.01\<close>.\<close>

definition lrelu :: "real \<Rightarrow> real" where
  "lrelu x = (if 0 \<le> x then x else x / 100)"

text \<open>\<^verbatim>\<open>t.repeat([n, 1])\<close> on a two-dimensional tensor: \<open>n\<close> copies of the rows, one
  after the other; a negative count raises.\<close>

definition repeat_rows :: "int \<Rightarrow> 'a list \<Rightarrow> error + 'a list" where
  "repeat_rows n xs = (if n < 0 then Inl InvalidDim else Inr (concat (replicate (nat n) xs)))"

section \<open>Random generators\<close>

text \<open>
  The generator of \<^verbatim>\<open>torch\<close> is a state: the values it will yield, and how many it has
  yielded. Drawing \<open>n\<close> values returns them and advances the state.
\<close>

record torch_rng =
  uniform_at :: "nat \<Rightarrow> real"
  normal_at :: "nat \<Rightarrow> real"
  tpos :: nat

definition torch_uniform :: "nat \<Rightarrow> torch_rng \<Rightarrow> real list \<times> torch_rng" where
  "torch_uniform n g = (map (uniform_at g) [tpos g ..< tpos g + n], g\<lparr>tpos := tpos g + n\<rparr>)"

definition torch_randn :: "nat \<Rightarrow> torch_rng \<Rightarrow> real list \<times> torch_rng" where
  "torch_randn n g = (map (normal_at g) [tpos g ..< tpos g + n], g\<lparr>tpos := tpos g + n\<rparr>)"

section \<open>The network (class Agent)\<close>

text \<open>
  The encoders are \<^verbatim>\<open>torch\<close> modules that act on each row of a batch on its own, so each
  is a function on one row: \<open>img_head\<close> (the convolution stack and the flattening),
  \<open>float_feature_extractor\<close>, \<open>iqn_fc\<close>.

  Modelled from the spec: the module \<^verbatim>\<open>noisy_linear\<close> (class NoisyLinear) is not among the
  sources. Each of the four noisy layers caches the noise that its last \<open>reset_noise\<close> drew
  and uses it in every forward pass until the next one. A head is therefore a function of
  the cached noise of its two layers and of the input row; \<open>A_noise_len\<close> and
  \<open>V_noise_len\<close> give the number of values each layer draws.
\<close>

record agent =
  img_head :: "real list \<Rightarrow> real list"
  float_feature_extractor :: "real list \<Rightarrow> real list"
  iqn_fc :: "real list \<Rightarrow> real list"
  A_head :: "real list \<Rightarrow> real list \<Rightarrow> real list \<Rightarrow> real list"
  V_head :: "real list \<Rightarrow> real list \<Rightarrow> real list \<Rightarrow> real"
  A_noise :: "real list \<times> real list"
  V_noise :: "real list \<times> real list"
  A_noise_len :: "nat \<times> nat"
  V_noise_len :: "nat \<times> nat"
  iqn_embedding_dimension :: nat
  n_actions :: nat
  float_inputs_mean :: "real list"
  float_inputs_std :: "real list"

definition A_of :: "agent \<Rightarrow> real list \<Rightarrow> real list" where
  "A_of ag x = A_head ag (fst (A_noise ag)) (snd (A_noise ag)) x"

definition V_of :: "agent \<Rightarrow> real list \<Rightarrow> real" where
  "V_of ag x = V_head ag (fst (V_noise ag)) (snd (V_noise ag)) x"

definition reset_noise :: "agent \<Rightarrow> torch_rng \<Rightarrow> agent \<times> torch_rng" where
  "reset_noise ag g =
     (let (a0, g1) = torch_randn (fst (A_noise_len ag)) g;
          (a2, g2) = torch_randn (snd (A_noise_len ag)) g1;
          (v0, g3) = torch_randn (fst (V_noise_len ag)) g2;
          (v2, g4) = torch_randn (snd (V_noise_len ag)) g3
      in (ag\<lparr>A_noise := (a0, a2), V_noise := (v0, v2)\<rparr>, g4))"

text \<open>Lines 78 to 81 of \<open>forward\<close>: both encoders and \<^verbatim>\<open>torch.cat(..., 1)\<close>.\<close>

definition state_embedding :: "agent \<Rightarrow> real list list \<Rightarrow> real list list \<Rightarrow> error + real list list" where
  "state_embedding ag img float_inputs =
     (let img_outputs = map (\<lambda>im. img_head ag (map (\<lambda>p. (p - 128) / 128) im)) img
      in ebind (sequence (map (\<lambda>r. bop (-) r (float_inputs_mean ag)) float_inputs)) (\<lambda>centred.
         ebind (sequence (map (\<lambda>r. broadcast fdiv r (float_inputs_std ag)) centred)) (\<lambda>standardized.
         let float_outputs = map (float_feature_extractor ag) standardized
         in if length img_outputs = length float_outputs
            then Inr (map2 (@) img_outputs float_outputs)
            else Inl ShapeMismatch)))"

text \<open>Lines 84 to 94: the cosine embedding of one quantile fraction, projected.\<close>

definition quantile_net :: "agent \<Rightarrow> real \<Rightarrow> real list" where
  "quantile_net ag t =
     map lrelu (iqn_fc ag (map (\<lambda>i. cos (real i * pi * t)) [1 ..< iqn_embedding_dimension ag + 1]))"

text \<open>Lines 100 to 103: the two heads and the dueling combination, for one row.\<close>

definition dueling :: "agent \<Rightarrow> real list \<Rightarrow> real list" where
  "dueling ag x = (let A = A_of ag x; V = V_of ag x in map (\<lambda>a. V + a - mean A) A)"

text \<open>
  Lines 78 to 98 of \<open>forward\<close>: the state embedding, repeated for each quantile and
  multiplied by the embedding of the quantile fractions. \<open>tau\<close> is sampled exactly when
  none is given, and the generator advances exactly then.
\<close>

definition gated_embedding ::
  "agent \<Rightarrow> torch_rng \<Rightarrow> real list list \<Rightarrow> real list list \<Rightarrow> int \<Rightarrow> real list option
     \<Rightarrow> error + (real list list \<times> real list \<times> torch_rng)" where
  "gated_embedding ag g img float_inputs num_quantiles tau_arg =
     ebind (state_embedding ag img float_inputs) (\<lambda>embedded.
     ebind (case tau_arg of
              None \<Rightarrow>
                if int (length img) * num_quantiles < 0 then Inl InvalidDim
                else Inr (torch_uniform (nat (int (length img) * num_quantiles)) g)
            | Some t \<Rightarrow> Inr (t, g)) (\<lambda>(tau, g').
     ebind (repeat_rows num_quantiles embedded) (\<lambda>tiled.
     ebind (bop2 (*) tiled (map (quantile_net ag) tau)) (\<lambda>gated.
     Inr (gated, tau, g')))))"

text \<open>\<open>forward\<close> returns \<open>(Q, tau)\<close>; the embedding also returns the generator.\<close>

definition forward ::
  "agent \<Rightarrow> torch_rng \<Rightarrow> real list list \<Rightarrow> real list list \<Rightarrow> int \<Rightarrow> real list option
     \<Rightarrow> error + (real list list \<times> real list \<times> torch_rng)" where
  "forward ag g img float_inputs num_quantiles tau_arg =
     ebind (gated_embedding ag g img float_inputs num_quantiles tau_arg) (\<lambda>(gated, tau, g').
     Inr (map (dueling ag) gated, tau, g'))"

section \<open>Tensor operations of the training step\<close>

text \<open>
  \<^verbatim>\<open>t.reshape([d0, d1, d2])\<close>: a dimension below \<open>-1\<close> and a second \<open>-1\<close> raise; one
  \<open>-1\<close> is inferred from the number of elements; the sizes must multiply to that number.
\<close>

definition infer_dims :: "int list \<Rightarrow> nat \<Rightarrow> error + nat list" where
  "infer_dims ds numel =
     (let known = prod_list (map nat (filter (\<lambda>d. d \<noteq> - 1) ds)) in
      if list_ex (\<lambda>d. d < - 1) ds \<or> 1 < length (filter (\<lambda>d. d = - 1) ds) then Inl InvalidDim
      else if list_ex (\<lambda>d. d = - 1) ds then
        (if known = 0 \<or> numel mod known \<noteq> 0 then Inl ShapeMismatch
         else Inr (map (\<lambda>d. if d = - 1 then numel div known else nat d) ds))
      else if known = numel then Inr (map nat ds)
      else Inl ShapeMismatch)"

text \<open>The three-dimensional reshape of a tensor given by its elements in row-major order.\<close>

definition reshape3 :: "int \<Rightarrow> int \<Rightarrow> int \<Rightarrow> 'a list \<Rightarrow> error + 'a list list list" where
  "reshape3 d0 d1 d2 flat =
     ebind (infer_dims [d0, d1, d2] (length flat)) (\<lambda>ds.
       Inr (map (\<lambda>i. map (\<lambda>j. map (\<lambda>k. flat ! ((i * ds ! 1 + j) * ds ! 2 + k)) [0 ..< ds ! 2])
                           [0 ..< ds ! 1]) [0 ..< ds ! 0]))"

text \<open>The reshape to \<open>[d0, d1, 1]\<close>; the last axis, of size one, is left implicit.\<close>

definition reshape_unit :: "int \<Rightarrow> int \<Rightarrow> 'a list \<Rightarrow> error + 'a list list" where
  "reshape_unit d0 d1 flat =
     ebind (infer_dims [d0, d1, 1] (length flat)) (\<lambda>ds.
       Inr (map (\<lambda>i. map (\<lambda>j. flat ! (i * ds ! 1 + j)) [0 ..< ds ! 1]) [0 ..< ds ! 0]))"

text \<open>\<^verbatim>\<open>t.transpose(0, 1)\<close> of a tensor whose first axis is not empty.\<close>

definition transpose01 :: "'a list list \<Rightarrow> 'a list list" where
  "transpose01 X = (if X = [] then [] else map (\<lambda>b. map (\<lambda>row. row ! b) X) [0 ..< length (hd X)])"

text \<open>\<^verbatim>\<open>torch.mean(t, dim=0)\<close> of a tensor of shape \<open>(n, b, a)\<close>.\<close>

definition mean_dim0 :: "real list list list \<Rightarrow> error + real list list" where
  "mean_dim0 X =
     (if X = [] then Inl NonFinite
      else Inr (map (\<lambda>b. map (\<lambda>k. mean (map (\<lambda>plane. plane ! b ! k) X)) [0 ..< length (hd X ! b)])
                  [0 ..< length (hd X)]))"

fun list_max :: "real list \<Rightarrow> real" where
  "list_max [] = 0"
| "list_max [x] = x"
| "list_max (x # y # ys) = max x (list_max (y # ys))"

text \<open>The index of the first maximal value, as \<^verbatim>\<open>torch.argmax\<close> and \<^verbatim>\<open>np.argmax\<close> return it.\<close>

definition first_max :: "real list \<Rightarrow> nat" where
  "first_max xs = length (takeWhile (\<lambda>x. x < list_max xs) xs)"

definition torch_argmax_dim1 :: "real list list \<Rightarrow> error + nat list" where
  "torch_argmax_dim1 X =
     sequence (map (\<lambda>row. if row = [] then Inl EmptyReduction else Inr (first_max row)) X)"

definition torch_max_dim1 :: "real list list \<Rightarrow> error + real list" where
  "torch_max_dim1 X =
     sequence (map (\<lambda>row. if row = [] then Inl EmptyReduction else Inr (list_max row)) X)"

text \<open>
  An index tensor is the one-dimensional tensor \<open>ks\<close> itself (\<open>Idx1 ks\<close>, shape \<open>(n,)\<close>) or
  the column \<^verbatim>\<open>ks[:, None]\<close> (\<open>IdxCol ks\<close>, shape \<open>(n, 1)\<close>).

  \<^verbatim>\<open>torch.gather(input, 1, index)\<close> on a two-dimensional input: the index must have as many
  dimensions as the input and no more rows than it, and each entry must be a column of
  the input; the result has the shape of the index.
\<close>

datatype idx = Idx1 "nat list" | IdxCol "nat list"

text \<open>The size of the first axis of an index tensor.\<close>

definition idx_rows :: "idx \<Rightarrow> nat" where
  "idx_rows index = (case index of Idx1 ks \<Rightarrow> length ks | IdxCol ks \<Rightarrow> length ks)"

definition torch_gather_dim1 :: "real list list \<Rightarrow> idx \<Rightarrow> error + real list" where
  "torch_gather_dim1 input index =
     (case index of
        Idx1 ks \<Rightarrow> Inl RankMismatch
      | IdxCol ks \<Rightarrow>
          if length input < length ks then Inl ShapeMismatch
          else sequence (map2 (\<lambda>row k. if k < length row then Inr (row ! k) else Inl IndexOutOfRange)
                           input ks))"

text \<open>Python's \<^verbatim>\<open>pow(x, n)\<close> of a float and an int.\<close>

definition py_pow :: "real \<Rightarrow> int \<Rightarrow> error + real" where
  "py_pow x n = (if x = 0 \<and> n < 0 then Inl PyZeroDivisionError else Inr (x powi n))"

section \<open>The trainer (class Trainer)\<close>

text \<open>
  A transition of the replay buffer, whose class is not among the sources: the seven
  fields \<open>train_on_batch\<close> reads, the action an index, as the spec has it.
\<close>

record transition =
  state_img :: "real list"
  state_float :: "real list"
  action :: nat
  reward :: real
  is_done :: bool
  next_state_img :: "real list"
  next_state_float :: "real list"

record ('o, 's) trainer =
  model :: agent
  model2 :: agent
  optimizer :: 'o
  scaler :: 's
  batch_size :: int
  iqn_k :: int
  iqn_n :: int
  iqn_kappa :: real
  epsilon :: real
  gamma :: real
  n_steps :: int
  AL_alpha :: real

text \<open>\<open>Trainer.__init__\<close> stores its twelve arguments and checks none.\<close>

definition Trainer_init ::
  "agent \<Rightarrow> agent \<Rightarrow> 'o \<Rightarrow> 's \<Rightarrow> int \<Rightarrow> int \<Rightarrow> int \<Rightarrow> real \<Rightarrow> real \<Rightarrow> real \<Rightarrow> int \<Rightarrow> real
     \<Rightarrow> error + ('o, 's) trainer" where
  "Trainer_init model_arg model2_arg optimizer_arg scaler_arg batch_size_arg iqn_k_arg iqn_n_arg
       iqn_kappa_arg epsilon_arg gamma_arg n_steps_arg AL_alpha_arg =
     Inr \<lparr> model = model_arg, model2 = model2_arg, optimizer = optimizer_arg, scaler = scaler_arg,
           batch_size = batch_size_arg, iqn_k = iqn_k_arg, iqn_n = iqn_n_arg,
           iqn_kappa = iqn_kappa_arg, epsilon = epsilon_arg, gamma = gamma_arg,
           n_steps = n_steps_arg, AL_alpha = AL_alpha_arg \<rparr>"

text \<open>
  The training step is written block by block, each block a function of the tensors that
  enter it, in the order of the source. The optimizer step changes the weights of the
  online network through the autograd of \<^verbatim>\<open>torch\<close>; the embedding leaves the weights as
  they are and returns what the step reports.

  Lines 189 to 191 (and again 209 to 211, 226 to 228): the quantile values of shape
  \<open>(batch_size * iqn_n, n_actions)\<close>, reshaped to \<open>[iqn_n, batch_size, n_actions]\<close> and
  averaged over the quantile axis.
\<close>

definition quantile_average :: "('o, 's) trainer \<Rightarrow> real list list \<Rightarrow> error + real list list" where
  "quantile_average tr q =
     ebind (reshape3 (iqn_n tr) (batch_size tr) (int (n_actions (model tr))) (concat q)) mean_dim0"

text \<open>Lines 186 to 199: the online network chooses the next action.\<close>

definition select_action ::
  "('o, 's) trainer \<Rightarrow> torch_rng \<Rightarrow> real list list \<Rightarrow> real list list
     \<Rightarrow> error + (nat list \<times> ('o, 's) trainer \<times> torch_rng)" where
  "select_action tr g next_state_img_tensor next_state_float_tensor =
     (let (m, g1) = reset_noise (model tr) g in
      ebind (forward m g1 next_state_img_tensor next_state_float_tensor (iqn_n tr) None)
        (\<lambda>(q_stpo_alla, _, g2).
      ebind (quantile_average tr q_stpo_alla) (\<lambda>q_mean.
      ebind (torch_argmax_dim1 q_mean) (\<lambda>a_tpo.
      ebind (repeat_rows (iqn_n tr) a_tpo) (\<lambda>a_tpo_n.
      Inr (a_tpo_n, tr\<lparr>model := m\<rparr>, g2))))))"

text \<open>Lines 201 to 206: the target network evaluates it and samples \<open>tau\<close>.\<close>

definition target_pass ::
  "('o, 's) trainer \<Rightarrow> torch_rng \<Rightarrow> real list list \<Rightarrow> real list list \<Rightarrow> nat list
     \<Rightarrow> error + (real list list \<times> real list \<times> real list \<times> ('o, 's) trainer \<times> torch_rng)" where
  "target_pass tr g next_state_img_tensor next_state_float_tensor a_tpo =
     (let (m2, g1) = reset_noise (model2 tr) g in
      ebind (forward m2 g1 next_state_img_tensor next_state_float_tensor (iqn_n tr) None)
        (\<lambda>(q_stpot_alla, tau, g2).
      ebind (torch_gather_dim1 q_stpot_alla (IdxCol a_tpo)) (\<lambda>q_stpot_atpot.
      Inr (q_stpot_alla, tau, q_stpot_atpot, tr\<lparr>model2 := m2\<rparr>, g2))))"

text \<open>Lines 209 to 215: value and taken-action value of the next state, \<open>(v_stpot, q_stpot_a)\<close>.\<close>

definition pal_next :: "('o, 's) trainer \<Rightarrow> real list list \<Rightarrow> idx \<Rightarrow> error + (real list \<times> real list)" where
  "pal_next tr q_stpot_alla actions =
     ebind (quantile_average tr q_stpot_alla) (\<lambda>q_mean.
     ebind (torch_max_dim1 q_mean) (\<lambda>v_stpot.
     ebind (torch_gather_dim1 q_mean actions) (\<lambda>q_stpot_a.
     Inr (v_stpot, q_stpot_a))))"

text \<open>Lines 220 and 221: the online network on the current state, at the given \<open>tau\<close>.\<close>

definition online_pass ::
  "('o, 's) trainer \<Rightarrow> torch_rng \<Rightarrow> real list list \<Rightarrow> real list list \<Rightarrow> real list
     \<Rightarrow> error + (real list list \<times> ('o, 's) trainer \<times> torch_rng)" where
  "online_pass tr g state_img_tensor state_float_tensor tau =
     (let (m, g1) = reset_noise (model tr) g in
      ebind (forward m g1 state_img_tensor state_float_tensor (iqn_n tr) (Some tau))
        (\<lambda>(outputs, _, g2).
      Inr (outputs, tr\<lparr>model := m\<rparr>, g2)))"

text \<open>Lines 226 to 232: taken-action value and value of the current state, \<open>(q_s_a, v_s)\<close>.\<close>

definition pal_cur :: "('o, 's) trainer \<Rightarrow> real list list \<Rightarrow> idx \<Rightarrow> error + (real list \<times> real list)" where
  "pal_cur tr outputs actions =
     ebind (quantile_average tr outputs) (\<lambda>q_s_alla.
     ebind (torch_gather_dim1 q_s_alla actions) (\<lambda>q_s_a.
     ebind (torch_max_dim1 q_s_alla) (\<lambda>v_s.
     Inr (q_s_a, v_s))))"

text \<open>Line 236, left operand: \<^verbatim>\<open>torch.where(done, rewards, rewards + pow(gamma, n_steps) * q_stpot_atpot)\<close>.\<close>

definition bootstrap_target ::
  "('o, 's) trainer \<Rightarrow> real list \<Rightarrow> bool list \<Rightarrow> real list \<Rightarrow> error + real list" where
  "bootstrap_target tr rewards dones q_stpot_atpot =
     ebind (py_pow (gamma tr) (n_steps tr)) (\<lambda>discount.
     ebind (bop (+) rewards (map (\<lambda>q. discount * q) q_stpot_atpot)) (\<lambda>bootstrapped.
     ebind (bop Pair dones rewards) (\<lambda>dr.
     bop (\<lambda>(d, r) x. if d then r else x) dr bootstrapped)))"

text \<open>Line 236, right operand:
  \<^verbatim>\<open>AL_alpha * torch.minimum(v_s - q_s_a, v_stpot - q_stpot_a).repeat([iqn_n, 1])\<close>.\<close>

definition pal_correction ::
  "('o, 's) trainer \<Rightarrow> real list \<Rightarrow> real list \<Rightarrow> real list \<Rightarrow> real list \<Rightarrow> error + real list" where
  "pal_correction tr v_s q_s_a v_stpot q_stpot_a =
     ebind (bop (-) v_s q_s_a) (\<lambda>gap_cur.
     ebind (bop (-) v_stpot q_stpot_a) (\<lambda>gap_next.
     ebind (bop min gap_cur gap_next) (\<lambda>gap.
     ebind (repeat_rows (iqn_n tr) gap) (\<lambda>gap_n.
     Inr (map (\<lambda>x. AL_alpha tr * x) gap_n)))))"

text \<open>Lines 236 to 241: the target, of shape \<open>(batch_size, iqn_n, 1)\<close>.\<close>

definition outputs_target_of ::
  "('o, 's) trainer \<Rightarrow> real list \<Rightarrow> bool list \<Rightarrow> real list
     \<Rightarrow> real list \<Rightarrow> real list \<Rightarrow> real list \<Rightarrow> real list \<Rightarrow> error + real list list" where
  "outputs_target_of tr rewards dones q_stpot_atpot v_s q_s_a v_stpot q_stpot_a =
     ebind (bootstrap_target tr rewards dones q_stpot_atpot) (\<lambda>base.
     ebind (pal_correction tr v_s q_s_a v_stpot q_stpot_a) (\<lambda>correction.
     ebind (bop (-) base correction) (\<lambda>flat.
     ebind (reshape_unit (iqn_n tr) (batch_size tr) flat) (\<lambda>shaped.
     Inr (transpose01 shaped)))))"

definition bop3 ::
  "('a \<Rightarrow> 'b \<Rightarrow> 'c) \<Rightarrow> 'a list list list \<Rightarrow> 'b list list list \<Rightarrow> error + 'c list list list" where
  "bop3 f = broadcast (bop2 f)"

text \<open>\<^verbatim>\<open>t[:, None, :, :].expand([-1, n, -1, -1])\<close> on one batch item: \<open>n\<close> copies of the
  item along the new axis, \<open>-1\<close> keeping its size one.\<close>

definition expand_axis1 :: "int \<Rightarrow> 'a \<Rightarrow> error + 'a list" where
  "expand_axis1 n x =
     (if n = - 1 then Inr [x] else if n < 0 then Inl InvalidDim else Inr (replicate (nat n) x))"

text \<open>Lines 254 to 258: the Huber loss of one error.\<close>

definition huber :: "real \<Rightarrow> real \<Rightarrow> real" where
  "huber kappa d = (if \<bar>d\<bar> \<le> kappa then 0.5 * d\<^sup>2 else kappa * (\<bar>d\<bar> - 0.5 * kappa))"

text \<open>Line 251: \<^verbatim>\<open>outputs_target[:, :, None, :] - outputs[:, None, :, :]\<close>; in each batch
  item the first axis runs over the target quantiles, the second over the predicted ones.\<close>

definition TD_Error_of :: "real list list \<Rightarrow> real list list \<Rightarrow> error + real list list list" where
  "TD_Error_of outputs_target outputs =
     bop (\<lambda>target pred. map (\<lambda>t. map (\<lambda>p. t - p) pred) target) outputs_target outputs"

text \<open>Lines 264 to 266: the sum over axis 2, then the mean over axis 1.\<close>

definition reduce_loss :: "real list list list \<Rightarrow> error + real list" where
  "reduce_loss loss =
     sequence (map (\<lambda>item. if item = [] then Inl NonFinite else Inr (mean (map sum_list item))) loss)"

text \<open>Lines 245 to 266: the loss of each batch item.\<close>

definition quantile_loss ::
  "('o, 's) trainer \<Rightarrow> real list list \<Rightarrow> real list list \<Rightarrow> nat list \<Rightarrow> real list
     \<Rightarrow> error + real list" where
  "quantile_loss tr outputs_target outputs actions_n tau =
     ebind (torch_gather_dim1 outputs (IdxCol actions_n)) (\<lambda>taken.
     ebind (reshape_unit (iqn_n tr) (batch_size tr) taken) (\<lambda>shaped.
     ebind (TD_Error_of outputs_target (transpose01 shaped)) (\<lambda>TD_Error.
     let loss = map (map (map (huber (iqn_kappa tr)))) TD_Error in
     ebind (reshape_unit (iqn_n tr) (batch_size tr) tau) (\<lambda>tau_shaped.
     ebind (sequence (map (expand_axis1 (iqn_n tr)) (transpose01 tau_shaped))) (\<lambda>tau_expanded.
     ebind (bop3 (\<lambda>d t. if d < 0 then 1 - t else t) TD_Error tau_expanded) (\<lambda>weight.
     ebind (bop3 (*) weight loss) (\<lambda>weighted.
     ebind (sequence (map (\<lambda>item. sequence (map (\<lambda>row. sequence (map (\<lambda>x. fdiv x (iqn_kappa tr)) row)) item)) weighted))
       reduce_loss)))))))"

text \<open>Lines 254 to 263 on one error \<open>d\<close> at the quantile fraction \<open>t\<close>: the Huber loss,
  weighted by \<open>1 - t\<close> below zero and by \<open>t\<close> otherwise, divided by \<open>kappa\<close>.\<close>

definition pinball :: "real \<Rightarrow> real \<Rightarrow> real \<Rightarrow> real" where
  "pinball kappa t d = (if d < 0 then 1 - t else t) * huber kappa d / kappa"

text \<open>
  The reduction in the words of the spec, for the loss tensor of one batch item (first axis
  the target quantiles, second axis the predicted ones): the sum over the target-quantile
  axis, then the average over the predicted-quantile axis. \<open>reduce_loss\<close> above is the
  reduction of the source; the two are compared in claim C1.
\<close>

definition spec_item_loss :: "real list list \<Rightarrow> real" where
  "spec_item_loss item =
     mean (map (\<lambda>j. sum_list (map (\<lambda>row. row ! j) item)) [0 ..< length (hd item)])"

text \<open>\<^verbatim>\<open>torch.mean(outputs, dim=0)\<close> (line 243) and numpy's \<^verbatim>\<open>mean(axis=0)\<close> (line 285).\<close>

definition mean_axis0 :: "real list list \<Rightarrow> error + real list" where
  "mean_axis0 X =
     (if X = [] then Inl NonFinite
      else Inr (map (\<lambda>k. mean (map (\<lambda>row. row ! k) X)) [0 ..< length (hd X)]))"

text \<open>What \<open>train_on_batch\<close> reports: its two return values, and the priorities it hands
  to \<^verbatim>\<open>buffer.update\<close>.\<close>

record step_report =
  mean_q_value :: "real list"
  total_loss :: real
  priorities :: "real list"

text \<open>
  \<open>train_on_batch\<close>. The replay buffer is not among the sources: \<open>batch\<close> and
  \<open>is_weights\<close> are what \<^verbatim>\<open>buffer.sample(self.batch_size)\<close> returned. \<open>actions\<close> (line
  168) is a one-dimensional tensor; lines 215 and 230 pass it to \<^verbatim>\<open>torch.gather\<close> as it
  is, line 185 as \<^verbatim>\<open>actions[:, None]\<close>.
\<close>

definition train_on_batch ::
  "('o, 's) trainer \<Rightarrow> torch_rng \<Rightarrow> transition list \<Rightarrow> real list
     \<Rightarrow> error + (step_report \<times> ('o, 's) trainer \<times> torch_rng)" where
  "train_on_batch tr g batch is_weights =
     (let state_img_tensor = map state_img batch;
          state_float_tensor = map state_float batch;
          actions = map action batch;
          next_state_img_tensor = map next_state_img batch;
          next_state_float_tensor = map next_state_float batch
      in
      ebind (repeat_rows (iqn_n tr) (map reward batch)) (\<lambda>rewards.
      ebind (repeat_rows (iqn_n tr) (map is_done batch)) (\<lambda>dones.
      ebind (repeat_rows (iqn_n tr) actions) (\<lambda>actions_n.
      ebind (select_action tr g next_state_img_tensor next_state_float_tensor) (\<lambda>(a_tpo, tr1, g1).
      ebind (target_pass tr1 g1 next_state_img_tensor next_state_float_tensor a_tpo)
        (\<lambda>(q_stpot_alla, tau, q_stpot_atpot, tr2, g2).
      ebind (pal_next tr2 q_stpot_alla (Idx1 actions)) (\<lambda>(v_stpot, q_stpot_a).
      ebind (online_pass tr2 g2 state_img_tensor state_float_tensor tau) (\<lambda>(outputs, tr3, g3).
      ebind (pal_cur tr3 outputs (Idx1 actions)) (\<lambda>(q_s_a, v_s).
      ebind (outputs_target_of tr3 rewards dones q_stpot_atpot v_s q_s_a v_stpot q_stpot_a)
        (\<lambda>outputs_target.
      ebind (mean_axis0 outputs) (\<lambda>mean_q.
      ebind (quantile_loss tr3 outputs_target outputs actions_n tau) (\<lambda>loss.
      ebind (bop (*) is_weights loss) (\<lambda>weighted.
      Inr (\<lparr> mean_q_value = mean_q, total_loss = sum_list weighted, priorities = loss \<rparr>,
           tr3, g3))))))))))))))"

section \<open>The exploration policy\<close>

text \<open>
  The generator of Python's \<^verbatim>\<open>random\<close> module: \<^verbatim>\<open>random.random()\<close> yields the next float,
  \<^verbatim>\<open>random.randrange(0, n)\<close> a number below \<open>n\<close> that the next draw determines, and raises
  for \<open>n = 0\<close>.
\<close>

record py_rng =
  float_at :: "nat \<Rightarrow> real"
  bits_at :: "nat \<Rightarrow> nat"
  ppos :: nat

definition py_random :: "py_rng \<Rightarrow> real \<times> py_rng" where
  "py_random r = (float_at r (ppos r), r\<lparr>ppos := ppos r + 1\<rparr>)"

definition py_randrange :: "nat \<Rightarrow> py_rng \<Rightarrow> error + (nat \<times> py_rng)" where
  "py_randrange n r =
     (if n = 0 then Inl PyValueError else Inr (bits_at r (ppos r) mod n, r\<lparr>ppos := ppos r + 1\<rparr>))"

definition np_max :: "real list \<Rightarrow> error + real" where
  "np_max xs = (if xs = [] then Inl PyValueError else Inr (list_max xs))"

definition np_argmax :: "real list \<Rightarrow> error + nat" where
  "np_argmax xs = (if xs = [] then Inl PyValueError else Inr (first_max xs))"

text \<open>Lines 275 to 285: the quantile-averaged action values of one observation.\<close>

definition exploration_q_values ::
  "('o, 's) trainer \<Rightarrow> torch_rng \<Rightarrow> real list \<Rightarrow> real list
     \<Rightarrow> error + (real list \<times> ('o, 's) trainer \<times> torch_rng)" where
  "exploration_q_values tr g img_inputs float_inputs =
     (let (m, g1) = (if 0 < epsilon tr then reset_noise (model tr) g else (model tr, g)) in
      ebind (forward m g1 [img_inputs] [float_inputs] (iqn_k tr) None) (\<lambda>(q, _, g2).
      ebind (mean_axis0 q) (\<lambda>q_values.
      Inr (q_values, tr\<lparr>model := m\<rparr>, g2))))"

text \<open>\<open>get_exploration_action\<close> returns the action, the greedy flag and the maximal value.\<close>

definition get_exploration_action ::
  "('o, 's) trainer \<Rightarrow> torch_rng \<Rightarrow> py_rng \<Rightarrow> real list \<Rightarrow> real list
     \<Rightarrow> error + ((nat \<times> bool \<times> real) \<times> ('o, 's) trainer \<times> torch_rng \<times> py_rng)" where
  "get_exploration_action tr g r img_inputs float_inputs =
     ebind (exploration_q_values tr g img_inputs float_inputs) (\<lambda>(q_values, tr1, g1).
       let (u, r1) = py_random r in
       if u < epsilon tr1 then
         ebind (py_randrange (n_actions (model tr1)) r1) (\<lambda>(a, r2).
         ebind (np_max q_values) (\<lambda>best.
         Inr ((a, False, best), tr1, g1, r2)))
       else
         ebind (np_argmax q_values) (\<lambda>a.
         ebind (np_max q_values) (\<lambda>best.
         Inr ((a, True, best), tr1, g1, r1))))"

section \<open>Example inputs\<close>

text \<open>A small network with two actions, a generator, a trainer and a transition, on which
  the theorems below are instantiated.\<close>

definition example_agent :: agent where
  "example_agent =
     \<lparr> img_head = (\<lambda>im. [1]), float_feature_extractor = (\<lambda>f. []),
       iqn_fc = (\<lambda>e. [e ! 0 - 1 / 4]),
       A_head = (\<lambda>z0 z2 x. [x ! 0, 0]), V_head = (\<lambda>z0 z2 x. 0),
       A_noise = ([], []), V_noise = ([], []), A_noise_len = (0, 0), V_noise_len = (0, 0),
       iqn_embedding_dimension = 1, n_actions = 2,
       float_inputs_mean = [0], float_inputs_std = [1] \<rparr>"

definition example_rng :: torch_rng where
  "example_rng = \<lparr> uniform_at = (\<lambda>n. if even n then 0 else 1 / 2), normal_at = (\<lambda>n. 0), tpos = 0 \<rparr>"

definition example_py_rng :: py_rng where
  "example_py_rng = \<lparr> float_at = (\<lambda>n. 1 / 2), bits_at = (\<lambda>n. 1), ppos = 0 \<rparr>"

definition example_trainer :: "(unit, unit) trainer" where
  "example_trainer =
     \<lparr> model = example_agent, model2 = example_agent, optimizer = (), scaler = (),
       batch_size = 1, iqn_k = 1, iqn_n = 2, iqn_kappa = 1, epsilon = 0, gamma = 1 / 2,
       n_steps = 3, AL_alpha = 1 / 10 \<rparr>"

definition example_transition :: transition where
  "example_transition =
     \<lparr> state_img = [0], state_float = [0], action = 0, reward = 1, is_done = False,
       next_state_img = [0], next_state_float = [0] \<rparr>"

definition tied_trainer :: "(unit, unit) trainer" where
  "tied_trainer = example_trainer\<lparr>model := example_agent\<lparr>A_head := (\<lambda>z0 z2 x. [0, 0])\<rparr>\<rparr>"

section \<open>Auxiliary facts\<close>

lemma ebind_Inr_iff: "ebind m f = Inr y \<longleftrightarrow> (\<exists>x. m = Inr x \<and> f x = Inr y)"
  by (cases m) (simp_all add: ebind_def)

lemma ebind_Inr [simp]: "ebind (Inr x) f = f x"
  by (simp add: ebind_def)

lemma ebind_Inl [simp]: "ebind (Inl e) f = Inl e"
  by (simp add: ebind_def)

lemma replicate_2: "replicate 2 x = [x, x]"
  by (simp add: numeral_2_eq_2)

lemmas forward_defs =
  forward_def gated_embedding_def state_embedding_def bop_def bop2_def broadcast_def fdiv_def
  mean_def lrelu_def repeat_rows_def torch_uniform_def A_of_def V_of_def quantile_net_def
  dueling_def Let_def replicate_2

lemma example_forward:
  "forward example_agent g [[0]] [[0]] 2 (Some [0, 1 / 2])
     = Inr ([[3 / 8, - (3 / 8)], [- (1 / 800), 1 / 800]], [0, 1 / 2], g)"
  by (simp add: forward_defs example_agent_def)

lemma example_forward_sampled:
  "forward example_agent example_rng [[0]] [[0]] 2 None
     = Inr ([[3 / 8, - (3 / 8)], [- (1 / 800), 1 / 800]], [0, 1 / 2], example_rng\<lparr>tpos := 2\<rparr>)"
  by (simp add: forward_defs example_agent_def example_rng_def upt_rec)

lemma sum_list_map_diff_const:
  fixes f :: "'a \<Rightarrow> real"
  shows "sum_list (map (\<lambda>x. f x - c) xs) = sum_list (map f xs) - real (length xs) * c"
  by (induction xs) (simp_all add: algebra_simps)

lemma dueling_row:
  "dueling ag x = map (\<lambda>a. V_of ag x + a - mean (A_of ag x)) (A_of ag x)"
  by (simp add: dueling_def Let_def)

lemma dueling_mean_zero_row:
  assumes "dueling ag x \<noteq> []"
  shows "mean (map (\<lambda>q. q - V_of ag x) (dueling ag x)) = 0"
proof -
  have ne: "A_of ag x \<noteq> []" using assms by (simp add: dueling_row)
  have "sum_list (map (\<lambda>q. q - V_of ag x) (dueling ag x))
          = sum_list (map (\<lambda>a. a - mean (A_of ag x)) (A_of ag x))"
    by (simp add: dueling_row comp_def)
  also have "\<dots> = sum_list (A_of ag x) - real (length (A_of ag x)) * mean (A_of ag x)"
    using sum_list_map_diff_const [of "\<lambda>a. a" "mean (A_of ag x)" "A_of ag x"] by simp
  also have "\<dots> = 0" using ne by (simp add: mean_def)
  finally show ?thesis by (simp add: mean_def)
qed


subsection \<open>Maxima and the first maximal index\<close>

lemma list_max_ge: "x \<in> set xs \<Longrightarrow> x \<le> list_max xs"
  by (induction xs rule: list_max.induct) auto

lemma list_max_in: "xs \<noteq> [] \<Longrightarrow> list_max xs \<in> set xs"
  by (induction xs rule: list_max.induct) (auto simp: max_def)

lemma list_max_Max: "xs \<noteq> [] \<Longrightarrow> list_max xs = Max (set xs)"
  by (metis List.finite_set Max_eqI list_max_ge list_max_in)

lemma takeWhile_first:
  assumes "\<exists>x \<in> set xs. \<not> P x"
  shows "length (takeWhile P xs) < length xs
         \<and> \<not> P (xs ! length (takeWhile P xs))
         \<and> (\<forall>k < length (takeWhile P xs). P (xs ! k))"
  using assms
proof (induction xs)
  case Nil
  then show ?case by simp
next
  case (Cons x xs)
  show ?case
  proof (cases "P x")
    case True
    with Cons.prems have "\<exists>y \<in> set xs. \<not> P y" by auto
    from Cons.IH [OF this] True show ?thesis by (auto simp: nth_Cons split: nat.splits)
  next
    case False
    then show ?thesis by simp
  qed
qed

lemma first_max_props:
  assumes "xs \<noteq> []"
  shows "first_max xs < length xs" and "xs ! first_max xs = list_max xs"
    and "\<forall>k < first_max xs. xs ! k < xs ! first_max xs"
proof -
  have ex: "\<exists>x \<in> set xs. \<not> x < list_max xs"
    using list_max_in [OF assms] by auto
  note tw = takeWhile_first [OF ex]
  show less: "first_max xs < length xs" using tw by (simp add: first_max_def)
  have "\<not> xs ! first_max xs < list_max xs" using tw by (simp add: first_max_def)
  moreover have "xs ! first_max xs \<le> list_max xs" using less list_max_ge by simp
  ultimately show eq: "xs ! first_max xs = list_max xs" by simp
  show "\<forall>k < first_max xs. xs ! k < xs ! first_max xs"
    using tw eq by (simp add: first_max_def)
qed

lemma reset_noise_fields:
  "n_actions (fst (reset_noise ag g)) = n_actions ag"
  by (simp add: reset_noise_def torch_randn_def Let_def split: prod.splits)

subsection \<open>The example inputs, evaluated\<close>

lemmas explore_defs =
  get_exploration_action_def exploration_q_values_def mean_axis0_def py_random_def
  py_randrange_def np_max_def np_argmax_def first_max_def reset_noise_def torch_randn_def

lemma example_explore_tied:
  "get_exploration_action tied_trainer example_rng example_py_rng [0] [0]
     = Inr ((0, True, 0), tied_trainer, example_rng\<lparr>tpos := 1\<rparr>, example_py_rng\<lparr>ppos := 1\<rparr>)"
  by (simp add: explore_defs forward_defs tied_trainer_def example_trainer_def example_agent_def
      example_rng_def example_py_rng_def)

lemma example_explore_random:
  "get_exploration_action (example_trainer\<lparr>epsilon := 1\<rparr>) example_rng example_py_rng [0] [0]
     = Inr ((1, False, 3 / 8), example_trainer\<lparr>epsilon := 1\<rparr>, example_rng\<lparr>tpos := 1\<rparr>,
            example_py_rng\<lparr>ppos := 2\<rparr>)"
  by (simp add: explore_defs forward_defs example_trainer_def example_agent_def
      example_rng_def example_py_rng_def)

lemma example_explore_first:
  "get_exploration_action example_trainer example_rng example_py_rng [0] [0]
     = Inr ((0, True, 3 / 8), example_trainer, example_rng\<lparr>tpos := 1\<rparr>, example_py_rng\<lparr>ppos := 1\<rparr>)"
  by (simp add: explore_defs forward_defs example_trainer_def example_agent_def
      example_rng_def example_py_rng_def)

lemma example_explore_second:
  "get_exploration_action example_trainer (example_rng\<lparr>tpos := 1\<rparr>) (example_py_rng\<lparr>ppos := 1\<rparr>) [0] [0]
     = Inr ((1, True, 1 / 800), example_trainer, example_rng\<lparr>tpos := 2\<rparr>, example_py_rng\<lparr>ppos := 2\<rparr>)"
  by (simp add: explore_defs forward_defs example_trainer_def example_agent_def
      example_rng_def example_py_rng_def)

lemmas train_defs =
  train_on_batch_def select_action_def target_pass_def pal_next_def quantile_average_def
  reshape3_def infer_dims_def mean_dim0_def torch_argmax_dim1_def torch_max_dim1_def
  torch_gather_dim1_def first_max_def reset_noise_def torch_randn_def

lemma example_select_action:
  "select_action example_trainer example_rng [[0]] [[0]]
     = Inr ([0, 0], example_trainer, example_rng\<lparr>tpos := 2\<rparr>)"
  by (simp add: train_defs forward_defs example_trainer_def example_agent_def example_rng_def upt_rec)

lemma example_target_pass:
  "target_pass example_trainer (example_rng\<lparr>tpos := 2\<rparr>) [[0]] [[0]] [0, 0]
     = Inr ([[3 / 8, - (3 / 8)], [- (1 / 800), 1 / 800]], [0, 1 / 2], [3 / 8, - (1 / 800)],
            example_trainer, example_rng\<lparr>tpos := 4\<rparr>)"
  by (simp add: train_defs forward_defs example_trainer_def example_agent_def example_rng_def upt_rec)

lemma example_pal_next:
  "pal_next example_trainer [[3 / 8, - (3 / 8)], [- (1 / 800), 1 / 800]] (Idx1 [0]) = Inl RankMismatch"
  by (simp add: train_defs mean_def example_trainer_def example_agent_def upt_rec)

lemma example_trainer_iqn_n: "iqn_n example_trainer = 2"
  by (simp add: example_trainer_def)

lemma example_forward_first:
  "forward example_agent example_rng [[0]] [[0]] 1 None
     = Inr ([[3 / 8, - (3 / 8)]], [0], example_rng\<lparr>tpos := 1\<rparr>)"
  by (simp add: forward_defs example_agent_def example_rng_def)

lemma example_forward_second:
  "forward example_agent (example_rng\<lparr>tpos := 1\<rparr>) [[0]] [[0]] 1 None
     = Inr ([[- (1 / 800), 1 / 800]], [1 / 2], example_rng\<lparr>tpos := 2\<rparr>)"
  by (simp add: forward_defs example_agent_def example_rng_def)

subsection \<open>Passes and the generator\<close>

lemma pal_next_Idx1: "pal_next tr q (Idx1 ks) \<noteq> Inr res"
  by (auto simp: pal_next_def ebind_Inr_iff torch_gather_dim1_def)

lemma train_on_batch_never_returns: "train_on_batch tr g batch is_weights \<noteq> Inr res"
  by (auto simp: train_on_batch_def Let_def ebind_Inr_iff pal_next_Idx1)

lemma forward_Some_generator:
  assumes "forward ag g img float_inputs num_quantiles (Some tau) = Inr (Q, tau_out, g')"
  shows "forward ag g2 img float_inputs num_quantiles (Some tau) = Inr (Q, tau, g2)"
    and "g' = g" and "tau_out = tau"
  using assms
  by (auto simp: forward_def gated_embedding_def ebind_Inr_iff)

lemma forward_None_eq:
  "forward ag g img float_inputs num_quantiles None =
     (if int (length img) * num_quantiles < 0
      then ebind (state_embedding ag img float_inputs) (\<lambda>_. Inl InvalidDim)
      else ebind (forward ag g2 img float_inputs num_quantiles
                    (Some (fst (torch_uniform (nat (int (length img) * num_quantiles)) g))))
             (\<lambda>(Q, tau, _). Inr (Q, tau, snd (torch_uniform (nat (int (length img) * num_quantiles)) g))))"
  by (simp add: forward_def gated_embedding_def ebind_def case_prod_beta split: sum.splits)

lemma forward_None_Some:
  assumes "forward ag g img float_inputs num_quantiles None = Inr (Q, tau_out, g')"
  shows "forward ag g2 img float_inputs num_quantiles (Some tau_out) = Inr (Q, tau_out, g2)"
    and "(tau_out, g') = torch_uniform (nat (int (length img) * num_quantiles)) g"
    and "0 \<le> int (length img) * num_quantiles"
  using assms
  by (auto simp: forward_def gated_embedding_def ebind_Inr_iff split: if_splits)

lemma forward_Some_None:
  assumes "forward ag g2 img float_inputs num_quantiles (Some tau) = Inr (Q, tau_out, g2')"
    and "0 \<le> int (length img) * num_quantiles"
    and "tau = fst (torch_uniform (nat (int (length img) * num_quantiles)) g)"
  shows "forward ag g img float_inputs num_quantiles None
           = Inr (Q, tau, snd (torch_uniform (nat (int (length img) * num_quantiles)) g))"
  using assms forward_Some_generator [OF assms(1)]
  by (simp add: forward_None_eq [of ag g img float_inputs num_quantiles g2])

lemma exploration_q_values_frozen:
  assumes "epsilon tr \<le> 0"
    and "exploration_q_values tr g img_inputs float_inputs = Inr (q_values, tr', g')"
    and "fst (torch_uniform (nat (iqn_k tr)) g2) = fst (torch_uniform (nat (iqn_k tr)) g)"
  shows "tr' = tr"
    and "exploration_q_values tr g2 img_inputs float_inputs
           = Inr (q_values, tr, snd (torch_uniform (nat (iqn_k tr)) g2))"
proof -
  from assms(1,2) obtain Q tau where
    fw: "forward (model tr) g [img_inputs] [float_inputs] (iqn_k tr) None = Inr (Q, tau, g')"
    and qv: "mean_axis0 Q = Inr q_values" and tr': "tr' = tr"
    by (auto simp: exploration_q_values_def ebind_Inr_iff)
  show "tr' = tr" by (rule tr')
  have s: "forward (model tr) g [img_inputs] [float_inputs] (iqn_k tr) (Some tau) = Inr (Q, tau, g)"
    using forward_None_Some(1) [OF fw] .
  have t: "tau = fst (torch_uniform (nat (iqn_k tr)) g)"
    using forward_None_Some(2) [OF fw] by (simp add: prod_eq_iff)
  have nn: "0 \<le> iqn_k tr"
    using forward_None_Some(3) [OF fw] by simp
  have "forward (model tr) g2 [img_inputs] [float_inputs] (iqn_k tr) None
          = Inr (Q, tau, snd (torch_uniform (nat (iqn_k tr)) g2))"
    using forward_Some_None [OF s, of g2] nn t assms(3) by simp
  with assms(1) qv show "exploration_q_values tr g2 img_inputs float_inputs
           = Inr (q_values, tr, snd (torch_uniform (nat (iqn_k tr)) g2))"
    by (simp add: exploration_q_values_def)
qed

lemma negative_iqn_n_raises:
  "iqn_n tr < 0 \<Longrightarrow> train_on_batch tr g batch is_weights = Inl InvalidDim"
  by (simp add: train_on_batch_def repeat_rows_def Let_def)

lemma negative_iqn_k_raises:
  assumes "iqn_k tr < 0"
  shows "\<exists>e. get_exploration_action tr g r img_inputs float_row = Inl e"
proof -
  have "forward m g1 [img_inputs] [float_row] (iqn_k tr) None \<noteq> Inr res" for m g1 res
    using assms by (cases res) (auto simp: forward_def gated_embedding_def ebind_Inr_iff)
  then have "exploration_q_values tr g img_inputs float_row \<noteq> Inr res" for res
    by (auto simp: exploration_q_values_def Let_def ebind_Inr_iff split: prod.splits)
  then have "get_exploration_action tr g r img_inputs float_row \<noteq> Inr res" for res
    by (auto simp: get_exploration_action_def ebind_Inr_iff)
  then show ?thesis
    by (cases "get_exploration_action tr g r img_inputs float_row") blast+
qed

subsection \<open>Sequencing, broadcasting, repeating\<close>

lemma sequence_map_Inr_id: "sequence (map Inr xs) = Inr xs"
  by (induction xs) simp_all

lemma sequence_Inr_D: "sequence ms = Inr xs \<Longrightarrow> ms = map Inr xs"
proof (induction ms arbitrary: xs)
  case Nil
  then show ?case by simp
next
  case (Cons m ms)
  then show ?case by (auto split: sum.splits)
qed

lemma sequence_Inr_iff: "sequence ms = Inr xs \<longleftrightarrow> ms = map Inr xs"
  using sequence_Inr_D sequence_map_Inr_id by blast

lemma sequence_map_Inr:
  assumes "\<And>x. x \<in> set xs \<Longrightarrow> f x = Inr (g x)"
  shows "sequence (map f xs) = Inr (map g xs)"
  using assms by (simp add: sequence_Inr_iff)

lemma broadcast_same_length:
  assumes "length xs = length ys"
    and "\<And>i. i < length xs \<Longrightarrow> f (xs ! i) (ys ! i) = Inr (h (xs ! i) (ys ! i))"
  shows "broadcast f xs ys = Inr (map2 h xs ys)"
proof -
  have "map2 f xs ys = map Inr (map2 h xs ys)"
    using assms by (intro nth_equalityI) simp_all
  then show ?thesis using assms(1) by (simp add: broadcast_def sequence_Inr_iff)
qed

lemma bop_same_length: "length xs = length ys \<Longrightarrow> bop f xs ys = Inr (map2 f xs ys)"
  by (simp add: bop_def broadcast_same_length)

lemma repeat_rows_nonneg: "repeat_rows (int n) xs = Inr (concat (replicate n xs))"
  by (simp add: repeat_rows_def)

lemma length_concat_replicate: "length (concat (replicate n xs)) = n * length xs"
  by (induction n) simp_all

lemma nth_concat_replicate:
  "i < n \<Longrightarrow> b < length xs \<Longrightarrow> concat (replicate n xs) ! (i * length xs + b) = xs ! b"
proof (induction n arbitrary: i)
  case 0
  then show ?case by simp
next
  case (Suc n)
  show ?case
  proof (cases i)
    case 0
    with Suc.prems show ?thesis by (simp add: nth_append)
  next
    case (Suc j)
    with Suc.prems Suc.IH [of j] show ?thesis by (simp add: nth_append add.assoc)
  qed
qed

lemma index_bound: "i < (n :: nat) \<Longrightarrow> b < m \<Longrightarrow> i * m + b < n * m"
proof -
  assume a: "i < n" "b < m"
  then have "i * m + b < i * m + m" by simp
  also have "\<dots> = Suc i * m" by simp
  also have "\<dots> \<le> n * m" using a(1) by (intro mult_le_mono1) simp
  finally show ?thesis .
qed

subsection \<open>Reshaping\<close>

lemma infer_dims_unit: "infer_dims [int n, int b, 1] (n * b) = Inr [n, b, 1]"
  by (simp add: infer_dims_def)

lemma reshape_unit_nonneg:
  assumes "length flat = n * b"
  shows "reshape_unit (int n) (int b) flat
           = Inr (map (\<lambda>i. map (\<lambda>j. flat ! (i * b + j)) [0 ..< b]) [0 ..< n])"
  using assms by (simp add: reshape_unit_def infer_dims_unit)

lemma transpose01_tabulate:
  assumes "0 < n"
  shows "transpose01 (map (\<lambda>i. map (\<lambda>j. f i j) [0 ..< b]) [0 ..< n])
           = map (\<lambda>j. map (\<lambda>i. f i j) [0 ..< n]) [0 ..< b]"
proof -
  have hd: "hd (map (\<lambda>i. map (\<lambda>j. f i j) [0 ..< b]) [0 ..< n]) = map (\<lambda>j. f 0 j) [0 ..< b]"
    using assms by (simp add: hd_map upt_conv_Cons)
  have ne: "map (\<lambda>i. map (\<lambda>j. f i j) [0 ..< b]) [0 ..< n] \<noteq> []" using assms by simp
  show ?thesis
    unfolding transpose01_def hd using ne
    by (auto simp: comp_def intro!: map_cong)
qed

subsection \<open>The target and the correction, computed\<close>

lemma bootstrap_target_formula:
  assumes "length rs = B" "length ds = B" "length q = N * B"
    and "\<not> (gamma tr = 0 \<and> n_steps tr < 0)"
  shows "bootstrap_target tr (concat (replicate N rs)) (concat (replicate N ds)) q
           = Inr (map (\<lambda>k. if concat (replicate N ds) ! k then concat (replicate N rs) ! k
                            else concat (replicate N rs) ! k + gamma tr powi n_steps tr * q ! k)
                    [0 ..< N * B])"
proof -
  let ?R = "concat (replicate N rs)" and ?D = "concat (replicate N ds)"
  have lR: "length ?R = N * B" and lD: "length ?D = N * B"
    using assms by (simp_all add: length_concat_replicate)
  have "bootstrap_target tr ?R ?D q
          = Inr (map2 (\<lambda>(d, r) x. if d then r else x) (map2 Pair ?D ?R)
                   (map2 (+) ?R (map (\<lambda>x. gamma tr powi n_steps tr * x) q)))"
    using assms lR lD by (simp add: bootstrap_target_def py_pow_def bop_same_length)
  also have "map2 (\<lambda>(d, r) x. if d then r else x) (map2 Pair ?D ?R)
                   (map2 (+) ?R (map (\<lambda>x. gamma tr powi n_steps tr * x) q))
             = map (\<lambda>k. if ?D ! k then ?R ! k else ?R ! k + gamma tr powi n_steps tr * q ! k) [0 ..< N * B]"
    using assms lR lD by (intro nth_equalityI) simp_all
  finally show ?thesis .
qed

lemma pal_correction_formula:
  assumes "length v_s = B" "length q_s_a = B" "length v_stpot = B" "length q_stpot_a = B"
    and "iqn_n tr = int N"
  shows "pal_correction tr v_s q_s_a v_stpot q_stpot_a
           = Inr (map (\<lambda>x. AL_alpha tr * x)
                    (concat (replicate N
                       (map (\<lambda>b. min (v_s ! b - q_s_a ! b) (v_stpot ! b - q_stpot_a ! b)) [0 ..< B]))))"
proof -
  have "map2 min (map2 (-) v_s q_s_a) (map2 (-) v_stpot q_stpot_a)
          = map (\<lambda>b. min (v_s ! b - q_s_a ! b) (v_stpot ! b - q_stpot_a ! b)) [0 ..< B]"
    using assms by (intro nth_equalityI) simp_all
  then show ?thesis
    using assms by (simp add: pal_correction_def bop_same_length repeat_rows_nonneg)
qed

lemma outputs_target_value:
  assumes "iqn_n tr = int N" "0 < N" "batch_size tr = int B"
    and "length rs = B" "length ds = B" "length q_stpot_atpot = N * B"
    and "length v_s = B" "length q_s_a = B" "length v_stpot = B" "length q_stpot_a = B"
    and "\<not> (gamma tr = 0 \<and> n_steps tr < 0)"
  shows "outputs_target_of tr (concat (replicate N rs)) (concat (replicate N ds)) q_stpot_atpot
             v_s q_s_a v_stpot q_stpot_a
           = Inr (map (\<lambda>b. map (\<lambda>i.
                    (if ds ! b then rs ! b
                     else rs ! b + gamma tr powi n_steps tr * q_stpot_atpot ! (i * B + b))
                    - AL_alpha tr * min (v_s ! b - q_s_a ! b) (v_stpot ! b - q_stpot_a ! b))
                  [0 ..< N]) [0 ..< B])"
proof -
  let ?R = "concat (replicate N rs)" and ?D = "concat (replicate N ds)"
  let ?gap = "map (\<lambda>b. min (v_s ! b - q_s_a ! b) (v_stpot ! b - q_stpot_a ! b)) [0 ..< B]"
  let ?base = "map (\<lambda>k. if ?D ! k then ?R ! k else ?R ! k + gamma tr powi n_steps tr * q_stpot_atpot ! k)
                 [0 ..< N * B]"
  let ?corr = "map (\<lambda>x. AL_alpha tr * x) (concat (replicate N ?gap))"
  let ?flat = "map2 (-) ?base ?corr"
  have lc: "length ?corr = N * B" by (simp add: length_concat_replicate)
  have lf: "length ?flat = N * B" using lc by simp
  have flat: "?flat ! (i * B + b)
                = (if ds ! b then rs ! b
                   else rs ! b + gamma tr powi n_steps tr * q_stpot_atpot ! (i * B + b))
                  - AL_alpha tr * min (v_s ! b - q_s_a ! b) (v_stpot ! b - q_stpot_a ! b)"
    if "i < N" "b < B" for i b
  proof -
    have k: "i * B + b < N * B" using that by (rule index_bound)
    have r: "?R ! (i * B + b) = rs ! b"
      using nth_concat_replicate [of i N b rs] that assms(4) by simp
    have d: "?D ! (i * B + b) = ds ! b"
      using nth_concat_replicate [of i N b ds] that assms(5) by simp
    have g: "concat (replicate N ?gap) ! (i * B + b) = ?gap ! b"
      using nth_concat_replicate [of i N b ?gap] that by simp
    have lg: "length (concat (replicate N ?gap)) = N * B" by (simp add: length_concat_replicate)
    show ?thesis using k that r d g lg by simp
  qed
  have "outputs_target_of tr ?R ?D q_stpot_atpot v_s q_s_a v_stpot q_stpot_a
          = ebind (reshape_unit (int N) (int B) ?flat) (\<lambda>shaped. Inr (transpose01 shaped))"
    using assms lc
    by (simp add: outputs_target_of_def bootstrap_target_formula [of rs B ds q_stpot_atpot N tr]
        pal_correction_formula [of v_s B q_s_a v_stpot q_stpot_a tr N] bop_same_length)
  also have "\<dots> = Inr (transpose01 (map (\<lambda>i. map (\<lambda>j. ?flat ! (i * B + j)) [0 ..< B]) [0 ..< N]))"
    using lf by (simp add: reshape_unit_nonneg)
  also have "transpose01 (map (\<lambda>i. map (\<lambda>j. ?flat ! (i * B + j)) [0 ..< B]) [0 ..< N])
               = map (\<lambda>j. map (\<lambda>i. ?flat ! (i * B + j)) [0 ..< N]) [0 ..< B]"
    using assms(2) by (rule transpose01_tabulate)
  also have "\<dots> = map (\<lambda>b. map (\<lambda>i.
                    (if ds ! b then rs ! b
                     else rs ! b + gamma tr powi n_steps tr * q_stpot_atpot ! (i * B + b))
                    - AL_alpha tr * min (v_s ! b - q_s_a ! b) (v_stpot ! b - q_stpot_a ! b))
                  [0 ..< N]) [0 ..< B]"
    using flat by (intro map_cong refl) simp_all
  finally show ?thesis .
qed

lemma example_outputs_target:
  "outputs_target_of (example_trainer\<lparr>batch_size := 2\<rparr>) [1, 5, 1, 5] [False, True, False, True]
     [10, 20, 30, 40] [3, 4] [1, 3] [5, 6] [4, 2]
     = Inr [[43 / 20, 93 / 20], [49 / 10, 49 / 10]]"
  by (simp add: outputs_target_of_def bootstrap_target_def pal_correction_def py_pow_def
      bop_same_length repeat_rows_def replicate_2 reshape_unit_def infer_dims_def transpose01_def
      example_trainer_def upt_rec power3_eq_cube)

subsection \<open>Quantile averages, maxima and gathers\<close>

lemma infer_dims_middle:
  assumes "infer_dims [d0, d1, d2] n = Inr ds" and "0 \<le> d1"
  shows "ds ! 1 = nat d1"
  using assms by (auto simp: infer_dims_def Let_def split: if_splits)

lemma quantile_average_rows:
  assumes "quantile_average tr q = Inr q_mean" and "0 \<le> batch_size tr"
  shows "length q_mean = nat (batch_size tr)"
proof -
  from assms(1) obtain ds where
    ds: "infer_dims [iqn_n tr, batch_size tr, int (n_actions (model tr))] (length (concat q)) = Inr ds"
    and m: "mean_dim0 (map (\<lambda>i. map (\<lambda>j. map (\<lambda>k. concat q ! ((i * ds ! 1 + j) * ds ! 2 + k)) [0 ..< ds ! 2])
                           [0 ..< ds ! 1]) [0 ..< ds ! 0]) = Inr q_mean"
    by (auto simp: quantile_average_def reshape3_def ebind_Inr_iff)
  have d1: "ds ! 1 = nat (batch_size tr)" using infer_dims_middle [OF ds assms(2)] .
  from m have pos: "0 < ds ! 0" by (auto simp: mean_dim0_def split: if_splits)
  from m pos have "length q_mean = ds ! 1"
    by (auto simp: mean_dim0_def hd_map upt_conv_Cons split: if_splits)
  with d1 show ?thesis by simp
qed


lemma torch_gather_dim1_D:
  assumes "torch_gather_dim1 input index = Inr out"
  shows "\<exists>ks. index = IdxCol ks \<and> length ks \<le> length input \<and> length out = length ks
           \<and> (\<forall>b < length ks. ks ! b < length (input ! b) \<and> out ! b = input ! b ! (ks ! b))"
proof (cases index)
  case (Idx1 ks)
  with assms show ?thesis by (simp add: torch_gather_dim1_def)
next
  case (IdxCol ks)
  let ?f = "\<lambda>row k. if k < length row then Inr (row ! k) else (Inl IndexOutOfRange :: error + real)"
  from assms IdxCol have le: "length ks \<le> length input"
    by (simp add: torch_gather_dim1_def split: if_splits)
  from assms IdxCol le have "sequence (map2 ?f input ks) = Inr out"
    by (simp add: torch_gather_dim1_def)
  then have s: "map2 ?f input ks = map Inr out" by (rule sequence_Inr_D)
  have "length (map2 ?f input ks) = length ks" using le by simp
  with s have len: "length out = length ks" by simp
  have "ks ! b < length (input ! b) \<and> out ! b = input ! b ! (ks ! b)" if "b < length ks" for b
  proof -
    have "map2 ?f input ks ! b = map Inr out ! b" using s by simp
    moreover have "map2 ?f input ks ! b = ?f (input ! b) (ks ! b)" using that le by simp
    moreover have "map Inr out ! b = Inr (out ! b)" using that len by simp
    ultimately have "?f (input ! b) (ks ! b) = Inr (out ! b)" by simp
    then show ?thesis by (simp split: if_splits)
  qed
  with IdxCol le len show ?thesis by simp
qed

lemma torch_max_dim1_D:
  assumes "torch_max_dim1 X = Inr v"
  shows "length v = length X" and "\<forall>b < length X. X ! b \<noteq> [] \<and> v ! b = list_max (X ! b)"
proof -
  let ?f = "\<lambda>row. if row = [] then Inl EmptyReduction else (Inr (list_max row) :: error + real)"
  from assms have "sequence (map ?f X) = Inr v" by (simp add: torch_max_dim1_def)
  then have s: "map ?f X = map Inr v" by (rule sequence_Inr_D)
  have "length (map ?f X) = length X" by simp
  with s show len: "length v = length X" by simp
  show "\<forall>b < length X. X ! b \<noteq> [] \<and> v ! b = list_max (X ! b)"
  proof (intro allI impI)
    fix b assume b: "b < length X"
    have "map ?f X ! b = map Inr v ! b" using s by simp
    moreover have "map ?f X ! b = ?f (X ! b)" using b by simp
    moreover have "map Inr v ! b = Inr (v ! b)" using b len by simp
    ultimately have "?f (X ! b) = Inr (v ! b)" by simp
    then show "X ! b \<noteq> [] \<and> v ! b = list_max (X ! b)" by (simp split: if_splits)
  qed
qed

lemma advantage_gap_nonneg:
  assumes "torch_gather_dim1 q_mean actions = Inr q_a" and "torch_max_dim1 q_mean = Inr v"
    and "idx_rows actions = length q_mean"
  shows "length q_a = length q_mean" and "length v = length q_mean"
    and "\<forall>b < length q_mean. q_a ! b \<le> v ! b"
proof -
  from torch_gather_dim1_D [OF assms(1)] obtain ks where
    ks: "actions = IdxCol ks" "length q_a = length ks"
    "\<forall>b < length ks. ks ! b < length (q_mean ! b) \<and> q_a ! b = q_mean ! b ! (ks ! b)"
    by blast
  from ks(1) assms(3) have l: "length ks = length q_mean" by (simp add: idx_rows_def)
  show "length q_a = length q_mean" using ks(2) l by simp
  show "length v = length q_mean" using torch_max_dim1_D(1) [OF assms(2)] .
  show "\<forall>b < length q_mean. q_a ! b \<le> v ! b"
  proof (intro allI impI)
    fix b assume b: "b < length q_mean"
    then have "q_a ! b = q_mean ! b ! (ks ! b)" "ks ! b < length (q_mean ! b)" using ks(3) l by simp_all
    moreover have "v ! b = list_max (q_mean ! b)" using torch_max_dim1_D(2) [OF assms(2)] b by simp
    ultimately show "q_a ! b \<le> v ! b" using list_max_ge [of "q_mean ! b ! (ks ! b)" "q_mean ! b"] by simp
  qed
qed

lemmas pal_defs =
  pal_cur_def pal_next_def pal_correction_def quantile_average_def reshape3_def infer_dims_def
  mean_dim0_def mean_def torch_max_dim1_def torch_gather_dim1_def bop_same_length repeat_rows_def
  replicate_2 example_trainer_def example_agent_def upt_rec

lemma example_pal_cur:
  "pal_cur example_trainer [[3 / 8, - (3 / 8)], [- (1 / 800), 1 / 800]] (IdxCol [1])
     = Inr ([- (299 / 1600)], [299 / 1600])"
  by (simp add: pal_defs)

lemma example_pal_next_col:
  "pal_next example_trainer [[2, 1], [4, 3]] (IdxCol [1]) = Inr ([3], [2])"
  by (simp add: pal_defs)

lemma example_pal_correction:
  "pal_correction example_trainer [299 / 1600] [- (299 / 1600)] [3] [2] = Inr [299 / 8000, 299 / 8000]"
  by (simp add: pal_defs)

subsection \<open>Tabulated tensors and the loss\<close>

lemma broadcast_tabulate:
  assumes "\<And>i. i < n \<Longrightarrow> f (X i) (Y i) = Inr (h i)"
  shows "broadcast f (map X [0 ..< n]) (map Y [0 ..< n]) = Inr (map h [0 ..< n])"
proof -
  have "map2 f (map X [0 ..< n]) (map Y [0 ..< n]) = map Inr (map h [0 ..< n])"
    using assms by (intro nth_equalityI) simp_all
  then show ?thesis by (simp add: broadcast_def sequence_Inr_iff)
qed

lemma bop_tabulate:
  "bop f (map X [0 ..< n]) (map Y [0 ..< n]) = Inr (map (\<lambda>i. f (X i) (Y i)) [0 ..< n])"
  unfolding bop_def by (rule broadcast_tabulate) simp

lemma bop2_tabulate:
  "bop2 f (map (\<lambda>i. map (X i) [0 ..< m]) [0 ..< n]) (map (\<lambda>i. map (Y i) [0 ..< m]) [0 ..< n])
     = Inr (map (\<lambda>i. map (\<lambda>j. f (X i j) (Y i j)) [0 ..< m]) [0 ..< n])"
  unfolding bop2_def by (rule broadcast_tabulate) (simp add: bop_tabulate)

lemma bop3_tabulate:
  "bop3 f (map (\<lambda>b. map (\<lambda>i. map (X b i) [0 ..< m]) [0 ..< n]) [0 ..< l])
          (map (\<lambda>b. map (\<lambda>i. map (Y b i) [0 ..< m]) [0 ..< n]) [0 ..< l])
     = Inr (map (\<lambda>b. map (\<lambda>i. map (\<lambda>j. f (X b i j) (Y b i j)) [0 ..< m]) [0 ..< n]) [0 ..< l])"
  unfolding bop3_def by (rule broadcast_tabulate) (simp add: bop2_tabulate)

lemma fdiv_tabulate:
  assumes "kappa \<noteq> 0"
  shows "sequence (map (\<lambda>item. sequence (map (\<lambda>row. sequence (map (\<lambda>x. fdiv x kappa) row)) item)) W)
           = Inr (map (map (map (\<lambda>x. x / kappa))) W)"
proof -
  have row: "sequence (map (\<lambda>x. fdiv x kappa) row) = Inr (map (\<lambda>x. x / kappa) row)" for row
    by (rule sequence_map_Inr) (simp add: fdiv_def assms)
  have item: "sequence (map (\<lambda>row. sequence (map (\<lambda>x. fdiv x kappa) row)) item)
                = Inr (map (map (\<lambda>x. x / kappa)) item)" for item
    by (rule sequence_map_Inr) (simp add: row)
  show ?thesis by (rule sequence_map_Inr) (simp add: item)
qed

lemma torch_gather_dim1_col:
  assumes "length ks = length input" and "\<And>k. k < length ks \<Longrightarrow> ks ! k < length (input ! k)"
  shows "torch_gather_dim1 input (IdxCol ks) = Inr (map (\<lambda>k. input ! k ! (ks ! k)) [0 ..< length ks])"
proof -
  let ?f = "\<lambda>row k. if k < length row then Inr (row ! k) else (Inl IndexOutOfRange :: error + real)"
  have "map2 ?f input ks = map Inr (map (\<lambda>k. input ! k ! (ks ! k)) [0 ..< length ks])"
    using assms by (intro nth_equalityI) simp_all
  then show ?thesis using assms(1) by (simp add: torch_gather_dim1_def sequence_Inr_iff)
qed

lemma sum_list_swap_upt:
  fixes w :: "nat \<Rightarrow> nat \<Rightarrow> real"
  shows "sum_list (map (\<lambda>i. sum_list (map (\<lambda>j. w i j) [0 ..< m])) [0 ..< n])
           = sum_list (map (\<lambda>j. sum_list (map (\<lambda>i. w i j) [0 ..< n])) [0 ..< m])"
proof -
  have "sum_list (map (\<lambda>i. sum_list (map (\<lambda>j. w i j) [0 ..< m])) [0 ..< n])
          = (\<Sum>i = 0 ..< n. \<Sum>j = 0 ..< m. w i j)"
    by (simp add: interv_sum_list_conv_sum_set_nat)
  also have "\<dots> = (\<Sum>j = 0 ..< m. \<Sum>i = 0 ..< n. w i j)" by (rule sum.swap)
  also have "\<dots> = sum_list (map (\<lambda>j. sum_list (map (\<lambda>i. w i j) [0 ..< n])) [0 ..< m])"
    by (simp add: interv_sum_list_conv_sum_set_nat)
  finally show ?thesis .
qed

lemma spec_item_loss_tabulate:
  assumes "0 < n"
  shows "spec_item_loss (map (\<lambda>i. map (\<lambda>j. w i j) [0 ..< n]) [0 ..< n])
           = mean (map (\<lambda>i. sum_list (map (\<lambda>j. w i j) [0 ..< n])) [0 ..< n])"
proof -
  have hd: "hd (map (\<lambda>i. map (\<lambda>j. w i j) [0 ..< n]) [0 ..< n]) = map (\<lambda>j. w 0 j) [0 ..< n]"
    using assms by (simp add: hd_map upt_conv_Cons)
  have len: "length (map (\<lambda>j. w 0 j) [0 ..< n]) = n" by simp
  have rows: "map (\<lambda>row. row ! j) (map (\<lambda>i. map (\<lambda>j. w i j) [0 ..< n]) [0 ..< n])
                = map (\<lambda>i. w i j) [0 ..< n]" if "j < n" for j
    using that by simp
  have "map (\<lambda>j. sum_list (map (\<lambda>row. row ! j) (map (\<lambda>i. map (\<lambda>j. w i j) [0 ..< n]) [0 ..< n]))) [0 ..< n]
          = map (\<lambda>j. sum_list (map (\<lambda>i. w i j) [0 ..< n])) [0 ..< n]"
    by (rule map_cong [OF refl]) (simp only: rows atLeastLessThan_iff set_upt)
  then have "spec_item_loss (map (\<lambda>i. map (\<lambda>j. w i j) [0 ..< n]) [0 ..< n])
               = mean (map (\<lambda>j. sum_list (map (\<lambda>i. w i j) [0 ..< n])) [0 ..< n])"
    unfolding spec_item_loss_def hd len by (rule arg_cong)
  also have "\<dots> = mean (map (\<lambda>i. sum_list (map (\<lambda>j. w i j) [0 ..< n])) [0 ..< n])"
    unfolding mean_def using sum_list_swap_upt [of w n n] by simp
  finally show ?thesis .
qed

lemma tabulate2_id:
  assumes "length X = B" and "\<forall>b < B. length (X ! b) = N"
  shows "X = map (\<lambda>b. map (\<lambda>i. X ! b ! i) [0 ..< N]) [0 ..< B]"
proof (rule nth_equalityI)
  show "length X = length (map (\<lambda>b. map (\<lambda>i. X ! b ! i) [0 ..< N]) [0 ..< B])"
    using assms(1) by simp
next
  fix b assume "b < length X"
  then have b: "b < B" using assms(1) by simp
  then have "X ! b = map (\<lambda>i. X ! b ! i) [0 ..< N]"
    using assms(2) by (intro nth_equalityI) simp_all
  then show "X ! b = map (\<lambda>b. map (\<lambda>i. X ! b ! i) [0 ..< N]) [0 ..< B] ! b"
    using b by simp
qed

lemma expand_axis1_rows:
  assumes "0 < N"
  shows "sequence (map (expand_axis1 (int N)) rows) = Inr (map (\<lambda>row. map (\<lambda>i. row) [0 ..< N]) rows)"
  using assms by (intro sequence_map_Inr) (simp add: expand_axis1_def map_replicate_trivial)

lemma reduce_loss_tabulate:
  assumes "0 < N"
  shows "reduce_loss (map (\<lambda>b. map (\<lambda>i. map (\<lambda>j. l b i j) [0 ..< N]) [0 ..< N]) [0 ..< B])
           = Inr (map (\<lambda>b. spec_item_loss (map (\<lambda>i. map (\<lambda>j. l b i j) [0 ..< N]) [0 ..< N])) [0 ..< B])"
proof -
  have "(if map (\<lambda>i. map (\<lambda>j. l b i j) [0 ..< N]) [0 ..< N] = [] then Inl NonFinite
         else Inr (mean (map sum_list (map (\<lambda>i. map (\<lambda>j. l b i j) [0 ..< N]) [0 ..< N]))))
        = Inr (spec_item_loss (map (\<lambda>i. map (\<lambda>j. l b i j) [0 ..< N]) [0 ..< N]))" for b
    using assms by (simp add: spec_item_loss_tabulate [OF assms] comp_def)
  then show ?thesis
    unfolding reduce_loss_def by (simp add: comp_def sequence_map_Inr)
qed

lemma example_quantile_loss:
  "quantile_loss (example_trainer\<lparr>batch_size := 2\<rparr>) [[1, 2], [3, 4]]
     [[1, 2, 3], [4, 5, 6], [7, 8, 9], [10, 11, 12]] [1, 0, 1, 0] [1 / 10, 2 / 10, 3 / 10, 4 / 10]
     = Inr [177 / 40, 19 / 5]"
  by (simp add: quantile_loss_def torch_gather_dim1_def reshape_unit_def infer_dims_def
      transpose01_def TD_Error_of_def bop_def bop2_def bop3_def broadcast_def expand_axis1_def
      huber_def fdiv_def reduce_loss_def mean_def replicate_2 example_trainer_def upt_rec Let_def)

subsection \<open>The rows of a forward pass\<close>

lemma state_embedding_length:
  assumes "state_embedding ag img float_inputs = Inr e"
  shows "length e = length img"
  using assms
  by (auto simp: state_embedding_def Let_def ebind_Inr_iff split: if_splits)

lemma broadcast_same_length_D:
  assumes "broadcast f xs ys = Inr zs" and "length xs = length ys"
  shows "length zs = length xs" and "\<forall>k < length xs. f (xs ! k) (ys ! k) = Inr (zs ! k)"
proof -
  from assms have "sequence (map2 f xs ys) = Inr zs" by (simp add: broadcast_def)
  then have s: "map2 f xs ys = map Inr zs" by (rule sequence_Inr_D)
  have "length (map2 f xs ys) = length xs" using assms(2) by simp
  with s show len: "length zs = length xs" by simp
  show "\<forall>k < length xs. f (xs ! k) (ys ! k) = Inr (zs ! k)"
  proof (intro allI impI)
    fix k assume k: "k < length xs"
    have "map2 f xs ys ! k = map Inr zs ! k" using s by simp
    moreover have "map2 f xs ys ! k = f (xs ! k) (ys ! k)" using k assms(2) by simp
    moreover have "map Inr zs ! k = Inr (zs ! k)" using k len by simp
    ultimately show "f (xs ! k) (ys ! k) = Inr (zs ! k)" by simp
  qed
qed

lemma forward_rows:
  assumes fw: "forward ag g img float_inputs (int N) tau_arg = Inr (Q, tau, g')"
    and len: "length tau = N * length img"
  shows "\<exists>e. state_embedding ag img float_inputs = Inr e \<and> length Q = N * length img
           \<and> (\<forall>i < N. \<forall>b < length img.
                 \<exists>x. bop (*) (e ! b) (quantile_net ag (tau ! (i * length img + b))) = Inr x
                      \<and> Q ! (i * length img + b) = dueling ag x)"
proof -
  let ?B = "length img"
  from fw obtain e gated where
    e: "state_embedding ag img float_inputs = Inr e"
    and b2: "bop2 (*) (concat (replicate N e)) (map (quantile_net ag) tau) = Inr gated"
    and Q: "Q = map (dueling ag) gated"
    by (auto simp: forward_def gated_embedding_def ebind_Inr_iff repeat_rows_def
        split: option.splits if_splits)
  have le: "length e = ?B" using state_embedding_length [OF e] .
  have lt: "length (concat (replicate N e)) = length (map (quantile_net ag) tau)"
    using len le by (simp add: length_concat_replicate)
  note rows = broadcast_same_length_D [OF b2 [unfolded bop2_def] lt]
  have lg: "length gated = N * ?B" using rows(1) le by (simp add: length_concat_replicate)
  have "\<exists>x. bop (*) (e ! b) (quantile_net ag (tau ! (i * ?B + b))) = Inr x
             \<and> Q ! (i * ?B + b) = dueling ag x" if "i < N" "b < ?B" for i b
  proof -
    have k: "i * ?B + b < N * ?B" using that by (rule index_bound)
    have "concat (replicate N e) ! (i * ?B + b) = e ! b"
      using nth_concat_replicate [of i N b e] that le by simp
    moreover have "bop (*) (concat (replicate N e) ! (i * ?B + b)) (map (quantile_net ag) tau ! (i * ?B + b))
                     = Inr (gated ! (i * ?B + b))"
      using rows(2) k le by (simp add: length_concat_replicate)
    ultimately have "bop (*) (e ! b) (quantile_net ag (tau ! (i * ?B + b))) = Inr (gated ! (i * ?B + b))"
      using k len by simp
    moreover have "Q ! (i * ?B + b) = dueling ag (gated ! (i * ?B + b))" using Q k lg by simp
    ultimately show ?thesis by blast
  qed
  with e Q lg show ?thesis by auto
qed

lemma example_online_pass:
  "online_pass example_trainer (example_rng\<lparr>tpos := 4\<rparr>) [[0]] [[0]] [0, 1 / 2]
     = Inr ([[3 / 8, - (3 / 8)], [- (1 / 800), 1 / 800]], example_trainer, example_rng\<lparr>tpos := 4\<rparr>)"
  by (simp add: online_pass_def train_defs forward_defs example_trainer_def example_agent_def
      example_rng_def)

subsection \<open>The two branches of the exploration policy\<close>

lemma exploration_branches:
  assumes "get_exploration_action tr g r img_inputs float_inputs = Inr ((a, greedy, best), tr', g', r')"
  shows "\<exists>q_values. exploration_q_values tr g img_inputs float_inputs = Inr (q_values, tr', g')
           \<and> q_values \<noteq> [] \<and> best = Max (set q_values)
           \<and> (if float_at r (ppos r) < epsilon tr
               then \<not> greedy \<and> a = bits_at r (Suc (ppos r)) mod n_actions (model tr)
                    \<and> a < n_actions (model tr)
               else greedy \<and> a < length q_values \<and> q_values ! a = Max (set q_values)
                    \<and> (\<forall>k < a. q_values ! k < q_values ! a))"
proof -
  from assms obtain q_values tr1 g1 where
    q: "exploration_q_values tr g img_inputs float_inputs = Inr (q_values, tr1, g1)"
    and rest: "(if float_at r (ppos r) < epsilon tr1 then
         ebind (py_randrange (n_actions (model tr1)) (r\<lparr>ppos := Suc (ppos r)\<rparr>)) (\<lambda>(a, r2).
         ebind (np_max q_values) (\<lambda>best.
         Inr ((a, False, best), tr1, g1, r2)))
       else
         ebind (np_argmax q_values) (\<lambda>a.
         ebind (np_max q_values) (\<lambda>best.
         Inr ((a, True, best), tr1, g1, r\<lparr>ppos := Suc (ppos r)\<rparr>)))) = Inr ((a, greedy, best), tr', g', r')"
    unfolding get_exploration_action_def ebind_Inr_iff by (auto simp: py_random_def)
  have tr1: "epsilon tr1 = epsilon tr" "n_actions (model tr1) = n_actions (model tr)"
    using q reset_noise_fields [of "model tr" g]
    by (auto simp: exploration_q_values_def ebind_Inr_iff Let_def split: prod.splits if_splits)
  show ?thesis
  proof (cases "float_at r (ppos r) < epsilon tr")
    case True
    with rest tr1 have "q_values \<noteq> []" "best = list_max q_values" "\<not> greedy" "tr' = tr1" "g' = g1"
        "n_actions (model tr) \<noteq> 0" "a = bits_at r (Suc (ppos r)) mod n_actions (model tr)"
      by (auto simp: py_random_def py_randrange_def np_max_def ebind_Inr_iff split: if_splits)
    with q True show ?thesis by (auto simp: list_max_Max)
  next
    case False
    with rest tr1 have ne: "q_values \<noteq> []" and "best = list_max q_values" "greedy" "tr' = tr1" "g' = g1"
        "a = first_max q_values"
      by (auto simp: py_random_def np_argmax_def np_max_def ebind_Inr_iff split: if_splits)
    with q False first_max_props [OF ne] show ?thesis by (auto simp: list_max_Max)
  qed
qed

subsection \<open>The correction when the index is a column\<close>

text \<open>Were the gathers of lines 215 and 230 given \<^verbatim>\<open>actions[:, None]\<close>, they would return,
  each gap would be non-negative, and so would the correction.\<close>

lemma pal_correction_nonneg_column:
  assumes "pal_cur tr outputs actions = Inr (q_s_a, v_s)"
    and "pal_next tr q_stpot_alla actions = Inr (v_stpot, q_stpot_a)"
    and "pal_correction tr v_s q_s_a v_stpot q_stpot_a = Inr correction"
    and "0 \<le> AL_alpha tr" and "int (idx_rows actions) = batch_size tr"
  shows "(\<forall>c \<in> set correction. 0 \<le> c)
         \<and> (\<forall>base. length base = length correction \<longrightarrow>
               (\<exists>flat. bop (-) base correction = Inr flat \<and> length flat = length base
                  \<and> (\<forall>k < length base. flat ! k \<le> base ! k)))"
proof -
  let ?B = "idx_rows actions"
  have bs: "0 \<le> batch_size tr" "nat (batch_size tr) = ?B" using assms(5) by simp_all
  from assms(1) obtain q_s_alla where
    c1: "quantile_average tr outputs = Inr q_s_alla"
    and c2: "torch_gather_dim1 q_s_alla actions = Inr q_s_a"
    and c3: "torch_max_dim1 q_s_alla = Inr v_s"
    by (auto simp: pal_cur_def ebind_Inr_iff)
  from assms(2) obtain q_mean where
    n1: "quantile_average tr q_stpot_alla = Inr q_mean"
    and n2: "torch_max_dim1 q_mean = Inr v_stpot"
    and n3: "torch_gather_dim1 q_mean actions = Inr q_stpot_a"
    by (auto simp: pal_next_def ebind_Inr_iff)
  have lc: "length q_s_alla = ?B" using quantile_average_rows [OF c1 bs(1)] bs(2) by simp
  have ln: "length q_mean = ?B" using quantile_average_rows [OF n1 bs(1)] bs(2) by simp
  note cur = advantage_gap_nonneg [OF c2 c3 lc [symmetric]]
  note nxt = advantage_gap_nonneg [OF n3 n2 ln [symmetric]]
  have lens: "length v_s = ?B" "length q_s_a = ?B" "length v_stpot = ?B" "length q_stpot_a = ?B"
    using cur(1,2) nxt(1,2) lc ln by simp_all
  from assms(3) obtain gap_n where
    rep: "repeat_rows (iqn_n tr) (map2 min (map2 (-) v_s q_s_a) (map2 (-) v_stpot q_stpot_a)) = Inr gap_n"
    and corr: "correction = map (\<lambda>x. AL_alpha tr * x) gap_n"
    using lens by (auto simp: pal_correction_def bop_same_length ebind_Inr_iff)
  have gap: "\<forall>x \<in> set (map2 min (map2 (-) v_s q_s_a) (map2 (-) v_stpot q_stpot_a)). 0 \<le> x"
  proof
    fix x assume "x \<in> set (map2 min (map2 (-) v_s q_s_a) (map2 (-) v_stpot q_stpot_a))"
    then obtain b where b: "b < ?B"
      and x: "x = min (v_s ! b - q_s_a ! b) (v_stpot ! b - q_stpot_a ! b)"
      using lens by (auto simp: in_set_conv_nth)
    from b cur(3) nxt(3) lc ln have "q_s_a ! b \<le> v_s ! b" "q_stpot_a ! b \<le> v_stpot ! b" by simp_all
    with x show "0 \<le> x" by simp
  qed
  from rep have "set gap_n \<subseteq> set (map2 min (map2 (-) v_s q_s_a) (map2 (-) v_stpot q_stpot_a))"
    by (auto simp: repeat_rows_def split: if_splits)
  with gap have "\<forall>x \<in> set gap_n. 0 \<le> x" by blast
  with corr assms(4) have nonneg: "\<forall>c \<in> set correction. 0 \<le> c" by auto
  have "\<exists>flat. bop (-) base correction = Inr flat \<and> length flat = length base
                  \<and> (\<forall>k < length base. flat ! k \<le> base ! k)"
    if "length base = length correction" for base :: "real list"
  proof -
    have "\<forall>k < length base. map2 (-) base correction ! k \<le> base ! k"
      using that nonneg by (simp add: nth_mem)
    then show ?thesis using that by (simp add: bop_same_length)
  qed
  with nonneg show ?thesis by blast
qed

lemma example_pal_correction_nonneg:
  "pal_cur example_trainer [[3 / 8, - (3 / 8)], [- (1 / 800), 1 / 800]] (IdxCol [1])
     = Inr ([- (299 / 1600)], [299 / 1600])
   \<and> pal_next example_trainer [[2, 1], [4, 3]] (IdxCol [1]) = Inr ([3], [2])
   \<and> pal_correction example_trainer [299 / 1600] [- (299 / 1600)] [3] [2] = Inr [299 / 8000, 299 / 8000]
   \<and> 0 \<le> AL_alpha example_trainer \<and> int (idx_rows (IdxCol [1])) = batch_size example_trainer
   \<and> (0 :: real) \<le> 299 / 8000
   \<and> (\<exists>flat. bop (-) [1, 1] [299 / 8000, 299 / 8000] = Inr flat \<and> flat ! 0 \<le> (1 :: real) \<and> flat ! 1 \<le> (1 :: real))"
proof -
  have a: "0 \<le> AL_alpha example_trainer" by (simp add: example_trainer_def)
  have b: "int (idx_rows (IdxCol [1])) = batch_size example_trainer"
    by (simp add: idx_rows_def example_trainer_def)
  note th = pal_correction_nonneg_column [OF example_pal_cur example_pal_next_col example_pal_correction a b]
  from th have "\<exists>flat. bop (-) [1, 1] [299 / 8000, 299 / 8000] = Inr flat \<and> length flat = length [1, 1 :: real]
                  \<and> (\<forall>k < length [1, 1 :: real]. flat ! k \<le> [1, 1 :: real] ! k)"
    by simp
  then obtain flat where f: "bop (-) [1, 1] [299 / 8000, 299 / 8000] = Inr flat"
    and le: "\<forall>k < length [1, 1 :: real]. flat ! k \<le> [1, 1 :: real] ! k" by blast
  from le have "flat ! 0 \<le> (1 :: real)" "flat ! 1 \<le> (1 :: real)"
    using le [rule_format, of 0] le [rule_format, of 1] by simp_all
  with f have "\<exists>flat. bop (-) [1, 1] [299 / 8000, 299 / 8000] = Inr flat \<and> flat ! 0 \<le> (1 :: real) \<and> flat ! 1 \<le> (1 :: real)"
    by blast
  moreover from th have "(0 :: real) \<le> 299 / 8000" by simp
  ultimately show ?thesis using example_pal_cur example_pal_next_col example_pal_correction a b by blast
qed

subsection \<open>Two passes at the same quantile fractions\<close>

text \<open>The pass of the target network followed by a pass of the online network that is given
  the returned \<open>tau\<close>: both are evaluated at the same fractions, row by row.\<close>

lemma passes_at_same_tau:
  assumes tp: "target_pass tr g next_state_img_tensor next_state_float_tensor a_tpo
                 = Inr (q_stpot_alla, tau, q_stpot_atpot, tr2, g2)"
    and op: "online_pass tr3 g3 state_img_tensor state_float_tensor tau = Inr (outputs, tr4, g4)"
    and same_batch: "length state_img_tensor = length next_state_img_tensor"
    and same_n: "iqn_n tr3 = iqn_n tr"
  shows "\<exists>N B e_next e_cur.
           iqn_n tr = int N \<and> B = length next_state_img_tensor
         \<and> tau = fst (torch_uniform (N * B) (snd (reset_noise (model2 tr) g)))
         \<and> forward (model tr4) g4 state_img_tensor state_float_tensor (iqn_n tr3) (Some tau)
             = Inr (outputs, tau, g4)
         \<and> g4 = snd (reset_noise (model tr3) g3)
         \<and> state_embedding (model2 tr2) next_state_img_tensor next_state_float_tensor = Inr e_next
         \<and> state_embedding (model tr4) state_img_tensor state_float_tensor = Inr e_cur
         \<and> length tau = N * B \<and> length q_stpot_alla = N * B \<and> length outputs = N * B
         \<and> (\<forall>i < N. \<forall>b < B.
               (\<exists>x. bop (*) (e_next ! b) (quantile_net (model2 tr2) (tau ! (i * B + b))) = Inr x
                    \<and> q_stpot_alla ! (i * B + b) = dueling (model2 tr2) x)
             \<and> (\<exists>y. bop (*) (e_cur ! b) (quantile_net (model tr4) (tau ! (i * B + b))) = Inr y
                    \<and> outputs ! (i * B + b) = dueling (model tr4) y))"
proof -
  let ?B = "length next_state_img_tensor"
  let ?m2 = "fst (reset_noise (model2 tr) g)" and ?g1 = "snd (reset_noise (model2 tr) g)"
  let ?m = "fst (reset_noise (model tr3) g3)" and ?h1 = "snd (reset_noise (model tr3) g3)"
  from tp have fw2: "forward ?m2 ?g1 next_state_img_tensor next_state_float_tensor (iqn_n tr) None
                       = Inr (q_stpot_alla, tau, g2)"
    and tr2: "model2 tr2 = ?m2"
    by (auto simp: target_pass_def ebind_Inr_iff split: prod.splits)
  from op obtain t' where fw: "forward ?m ?h1 state_img_tensor state_float_tensor (iqn_n tr3) (Some tau)
                      = Inr (outputs, t', g4)"
    and tr4: "model tr4 = ?m"
    by (auto simp: online_pass_def ebind_Inr_iff split: prod.splits)
  have g4: "g4 = ?h1" and t': "t' = tau" using forward_Some_generator(2,3) [OF fw] by simp_all
  have nn: "0 \<le> int ?B * iqn_n tr" and draw: "(tau, g2) = torch_uniform (nat (int ?B * iqn_n tr)) ?g1"
    using forward_None_Some(2,3) [OF fw2] by simp_all
  have s2: "forward ?m2 ?g1 next_state_img_tensor next_state_float_tensor (iqn_n tr) (Some tau)
              = Inr (q_stpot_alla, tau, ?g1)"
    using forward_None_Some(1) [OF fw2] .
  have n0: "0 \<le> iqn_n tr"
    using fw2 by (auto simp: forward_def gated_embedding_def ebind_Inr_iff repeat_rows_def split: if_splits)
  define N where "N = nat (iqn_n tr)"
  have N: "iqn_n tr = int N" using n0 by (simp add: N_def)
  have tau: "tau = fst (torch_uniform (N * ?B) ?g1)"
    using draw N by (simp add: prod_eq_iff nat_mult_distrib mult.commute)
  have lt: "length tau = N * ?B" using tau by (simp add: torch_uniform_def)
  from forward_rows [OF s2 [unfolded N] lt] obtain e_next where
    en: "state_embedding ?m2 next_state_img_tensor next_state_float_tensor = Inr e_next"
    and lq: "length q_stpot_alla = N * ?B"
    and rn: "\<forall>i < N. \<forall>b < ?B.
               \<exists>x. bop (*) (e_next ! b) (quantile_net ?m2 (tau ! (i * ?B + b))) = Inr x
                    \<and> q_stpot_alla ! (i * ?B + b) = dueling ?m2 x"
    by blast
  have lt': "length tau = N * length state_img_tensor" using lt same_batch by simp
  from forward_rows [OF fw [unfolded same_n N t'] lt'] obtain e_cur where
    ec: "state_embedding ?m state_img_tensor state_float_tensor = Inr e_cur"
    and lo: "length outputs = N * ?B"
    and rc: "\<forall>i < N. \<forall>b < ?B.
               \<exists>y. bop (*) (e_cur ! b) (quantile_net ?m (tau ! (i * ?B + b))) = Inr y
                    \<and> outputs ! (i * ?B + b) = dueling ?m y"
    using same_batch by auto
  have fw4: "forward (model tr4) g4 state_img_tensor state_float_tensor (iqn_n tr3) (Some tau)
               = Inr (outputs, tau, g4)"
    using forward_Some_generator(1) [OF fw, of g4] tr4 by simp
  show ?thesis
    using N tau fw4 g4 en ec lt lq lo rn rc tr2 tr4 by (intro exI [of _ N] exI [of _ ?B] exI [of _ e_next] exI [of _ e_cur]) simp
qed

lemma example_passes_at_same_tau:
  "target_pass example_trainer (example_rng\<lparr>tpos := 2\<rparr>) [[0]] [[0]] [0, 0]
     = Inr ([[3 / 8, - (3 / 8)], [- (1 / 800), 1 / 800]], [0, 1 / 2], [3 / 8, - (1 / 800)],
            example_trainer, example_rng\<lparr>tpos := 4\<rparr>)
   \<and> online_pass example_trainer (example_rng\<lparr>tpos := 4\<rparr>) [[0]] [[0]] [0, 1 / 2]
     = Inr ([[3 / 8, - (3 / 8)], [- (1 / 800), 1 / 800]], example_trainer, example_rng\<lparr>tpos := 4\<rparr>)
   \<and> [0, 1 / 2] = fst (torch_uniform 2 (snd (reset_noise (model2 example_trainer) (example_rng\<lparr>tpos := 2\<rparr>))))
   \<and> forward (model example_trainer) (example_rng\<lparr>tpos := 4\<rparr>) [[0]] [[0]] (iqn_n example_trainer)
         (Some [0, 1 / 2])
       = Inr ([[3 / 8, - (3 / 8)], [- (1 / 800), 1 / 800]], [0, 1 / 2], example_rng\<lparr>tpos := 4\<rparr>)"
proof -
  have len: "length [[0 :: real]] = length [[0 :: real]]" by simp
  from passes_at_same_tau [OF example_target_pass example_online_pass len refl]
  obtain N B where
    N: "iqn_n example_trainer = int N" and B: "B = length [[0 :: real]]"
    and tau: "[0, 1 / 2] = fst (torch_uniform (N * B) (snd (reset_noise (model2 example_trainer) (example_rng\<lparr>tpos := 2\<rparr>))))"
    and fw: "forward (model example_trainer) (example_rng\<lparr>tpos := 4\<rparr>) [[0]] [[0]] (iqn_n example_trainer)
               (Some [0, 1 / 2])
             = Inr ([[3 / 8, - (3 / 8)], [- (1 / 800), 1 / 800]], [0, 1 / 2], example_rng\<lparr>tpos := 4\<rparr>)"
    by blast
  from N have "N = 2" by (simp add: example_trainer_def)
  with B tau have "[0, 1 / 2] = fst (torch_uniform 2 (snd (reset_noise (model2 example_trainer) (example_rng\<lparr>tpos := 2\<rparr>))))"
    by simp
  with fw example_target_pass example_online_pass show ?thesis by blast
qed

subsection \<open>The quantile average of the exploration policy\<close>

lemma mean_axis0_D:
  assumes "mean_axis0 X = Inr m"
  shows "X \<noteq> []" and "length m = length (hd X)"
    and "\<forall>k < length m. m ! k = sum_list (map (\<lambda>row. row ! k) X) / real (length X)"
  using assms by (auto simp: mean_axis0_def mean_def split: if_splits)

lemma exploration_q_values_mean:
  assumes "exploration_q_values tr g img_inputs float_inputs = Inr (q_values, tr', g')"
  shows "\<exists>Q tau.
           forward (model tr') (if 0 < epsilon tr then snd (reset_noise (model tr) g) else g)
             [img_inputs] [float_inputs] (iqn_k tr) None = Inr (Q, tau, g')
         \<and> tr' = tr\<lparr>model := (if 0 < epsilon tr then fst (reset_noise (model tr) g) else model tr)\<rparr>
         \<and> 0 < iqn_k tr \<and> length Q = nat (iqn_k tr) \<and> length tau = nat (iqn_k tr)
         \<and> length q_values = length (hd Q)
         \<and> (\<forall>k < length q_values.
               q_values ! k = sum_list (map (\<lambda>row. row ! k) Q) / real (length Q))"
proof -
  let ?g1 = "if 0 < epsilon tr then snd (reset_noise (model tr) g) else g"
  from assms obtain Q tau where
    fw: "forward (model tr') ?g1 [img_inputs] [float_inputs] (iqn_k tr) None = Inr (Q, tau, g')"
    and tr': "tr' = tr\<lparr>model := (if 0 < epsilon tr then fst (reset_noise (model tr) g) else model tr)\<rparr>"
    and m: "mean_axis0 Q = Inr q_values"
    by (auto simp: exploration_q_values_def ebind_Inr_iff split: prod.splits if_splits)
  have nn: "0 \<le> iqn_k tr" using forward_None_Some(3) [OF fw] by simp
  define N where "N = nat (iqn_k tr)"
  have N: "iqn_k tr = int N" using nn by (simp add: N_def)
  have "(tau, g') = torch_uniform (nat (int (length [img_inputs]) * iqn_k tr)) ?g1"
    using forward_None_Some(2) [OF fw] .
  then have lt: "length tau = N * length [img_inputs]"
    by (simp add: torch_uniform_def N prod_eq_iff)
  from forward_rows [OF fw [unfolded N] lt] have lQ: "length Q = N" by auto
  have "Q \<noteq> []" using mean_axis0_D(1) [OF m] .
  with lQ have pos: "0 < N" by auto
  show ?thesis
    using fw tr' lQ lt pos mean_axis0_D(2,3) [OF m] by (auto simp: N)
qed

lemma example_explore_avg:
  "get_exploration_action (example_trainer\<lparr>iqn_k := 2\<rparr>) example_rng example_py_rng [0] [0]
     = Inr ((0, True, 299 / 1600), example_trainer\<lparr>iqn_k := 2\<rparr>, example_rng\<lparr>tpos := 2\<rparr>,
            example_py_rng\<lparr>ppos := 1\<rparr>)"
  by (simp add: explore_defs forward_defs example_trainer_def example_agent_def
      example_rng_def example_py_rng_def upt_rec)

subsection \<open>The gathers of lines 215 and 230 as written\<close>

lemma pal_cur_Idx1: "pal_cur tr outputs (Idx1 ks) \<noteq> Inr res"
  by (auto simp: pal_cur_def ebind_Inr_iff torch_gather_dim1_def)

lemma not_Inr_Inl: "(\<And>res. x \<noteq> Inr res) \<Longrightarrow> \<exists>e. x = Inl e"
  by (cases x) auto

lemma example_pal_cur_flat:
  "pal_cur example_trainer [[3 / 8, - (3 / 8)], [- (1 / 800), 1 / 800]] (Idx1 [0]) = Inl RankMismatch"
  by (simp add: pal_defs)

section \<open>The dueling combination\<close>

text \<open>
  Claim C3. Whatever the batch, the quantile fractions and the noise, each row of the \<open>Q\<close>
  that \<open>forward\<close> returns is \<open>V + A - mean A\<close> of the two heads on the same gated
  row; so \<open>Q - V\<close>, averaged over the actions of a row, is zero (there is at least one
  action). The arithmetic is exact.
\<close>

theorem forward_dueling:
  assumes "forward ag g img float_inputs num_quantiles tau_arg = Inr (Q, tau_out, g')"
  shows "\<exists>gated. gated_embedding ag g img float_inputs num_quantiles tau_arg = Inr (gated, tau_out, g')
           \<and> length Q = length gated
           \<and> (\<forall>i < length Q.
                Q ! i = map (\<lambda>a. V_of ag (gated ! i) + a - mean (A_of ag (gated ! i))) (A_of ag (gated ! i))
                \<and> (Q ! i \<noteq> [] \<longrightarrow> mean (map (\<lambda>q. q - V_of ag (gated ! i)) (Q ! i)) = 0))"
proof -
  from assms obtain gated where
    ge: "gated_embedding ag g img float_inputs num_quantiles tau_arg = Inr (gated, tau_out, g')"
    and Q: "Q = map (dueling ag) gated"
    by (auto simp: forward_def ebind_Inr_iff)
  have "\<forall>i < length Q.
          Q ! i = map (\<lambda>a. V_of ag (gated ! i) + a - mean (A_of ag (gated ! i))) (A_of ag (gated ! i))
          \<and> (Q ! i \<noteq> [] \<longrightarrow> mean (map (\<lambda>q. q - V_of ag (gated ! i)) (Q ! i)) = 0)"
    using Q dueling_mean_zero_row by (simp add: dueling_row [symmetric])
  with ge Q show ?thesis by auto
qed

theorem forward_dueling_witness:
  "forward example_agent example_rng [[0]] [[0]] 2 (Some [0, 1 / 2])
     = Inr ([[3 / 8, - (3 / 8)], [- (1 / 800), 1 / 800]], [0, 1 / 2], example_rng)
   \<and> (\<exists>gated. gated_embedding example_agent example_rng [[0]] [[0]] 2 (Some [0, 1 / 2])
                 = Inr (gated, [0, 1 / 2], example_rng)
        \<and> mean (map (\<lambda>q. q - V_of example_agent (gated ! 0)) [3 / 8, - (3 / 8)]) = 0
        \<and> mean (map (\<lambda>q. q - V_of example_agent (gated ! 1)) [- (1 / 800), 1 / 800]) = 0)"
proof -
  let ?Q = "[[3 / 8, - (3 / 8)], [- (1 / 800), 1 / 800]] :: real list list"
  note ex = example_forward [of example_rng]
  obtain gated where
    ge: "gated_embedding example_agent example_rng [[0]] [[0]] 2 (Some [0, 1 / 2])
           = Inr (gated, [0, 1 / 2], example_rng)"
    and rows: "\<forall>i < length ?Q.
                 ?Q ! i \<noteq> [] \<longrightarrow> mean (map (\<lambda>q. q - V_of example_agent (gated ! i)) (?Q ! i)) = 0"
    using forward_dueling [OF ex] by blast
  have "mean (map (\<lambda>q. q - V_of example_agent (gated ! 0)) [3 / 8, - (3 / 8)]) = 0"
    using rows [rule_format, of 0] by simp
  moreover have "mean (map (\<lambda>q. q - V_of example_agent (gated ! 1)) [- (1 / 800), 1 / 800]) = 0"
    using rows [rule_format, of 1] by simp
  ultimately show ?thesis using ex ge by blast
qed

section \<open>The quantile fractions a pass returns\<close>

text \<open>
  Claim C10. When \<open>forward\<close> is given a \<open>tau\<close>, it returns that \<open>tau\<close> and leaves the
  generator as it was; only when it is given none does it sample one, \<open>batch * num_quantiles\<close>
  uniform draws.
\<close>

theorem forward_returns_supplied_tau:
  assumes "forward ag g img float_inputs num_quantiles tau_arg = Inr (Q, tau_out, g')"
  shows "case tau_arg of
           Some t \<Rightarrow> tau_out = t \<and> g' = g
         | None \<Rightarrow> (tau_out, g') = torch_uniform (nat (int (length img) * num_quantiles)) g"
  using assms
  by (auto simp: forward_def gated_embedding_def ebind_Inr_iff split: option.splits if_splits prod.splits)

theorem forward_returns_supplied_tau_witness:
  "forward example_agent example_rng [[0]] [[0]] 2 (Some [0, 1 / 2])
     = Inr ([[3 / 8, - (3 / 8)], [- (1 / 800), 1 / 800]], [0, 1 / 2], example_rng)
   \<and> forward example_agent example_rng [[0]] [[0]] 2 None
     = Inr ([[3 / 8, - (3 / 8)], [- (1 / 800), 1 / 800]], [0, 1 / 2], example_rng\<lparr>tpos := 2\<rparr>)
   \<and> ([0, 1 / 2], example_rng\<lparr>tpos := 2\<rparr>) = torch_uniform 2 example_rng"
  using forward_returns_supplied_tau [OF example_forward [of example_rng]]
    forward_returns_supplied_tau [OF example_forward_sampled]
    example_forward [of example_rng] example_forward_sampled
  by simp

section \<open>The training step on a batch of one\<close>

text \<open>
  Claim C6. The step is not well-defined for \<open>batch_size = 1\<close>: on a batch of one
  well-formed transition, line 215 passes the one-dimensional \<open>actions\<close>, of shape \<open>(1,)\<close>,
  to \<^verbatim>\<open>torch.gather\<close> as the index into the two-dimensional quantile average of shape
  \<open>(1, n_actions)\<close>, and the gather raises. Line 245 gathers with \<^verbatim>\<open>actions[:, None]\<close>
  repeated, and does not.
\<close>

theorem train_on_batch_single_transition_raises:
  "train_on_batch example_trainer example_rng [example_transition] [1] = Inl RankMismatch"
  by (simp add: train_on_batch_def repeat_rows_def replicate_2 Let_def example_trainer_iqn_n
      example_select_action example_target_pass example_pal_next example_transition_def)

section \<open>The exploration policy\<close>

text \<open>
  Claim C7. Whenever \<open>get_exploration_action\<close> returns, the values it decides on are the
  average, over the \<open>iqn_k\<close> quantile rows of the one forward pass it makes (with
  \<open>tau = None\<close>, after a noise reset exactly when \<open>epsilon > 0\<close>), of the action values of
  each action. Probability is expressed through the draws of the generator: the random branch
  is taken exactly when the draw of \<^verbatim>\<open>random.random()\<close> is below \<open>epsilon\<close>, and then the
  action is the draw of \<^verbatim>\<open>random.randrange(0, n_actions)\<close>, below \<open>n_actions\<close>, flagged
  non-greedy; otherwise the action is the first index at which the quantile-averaged values
  are maximal, flagged greedy. Both branches return the maximum of the quantile-averaged
  values.
\<close>

theorem get_exploration_action_policy:
  assumes "get_exploration_action tr g r img_inputs float_inputs = Inr ((a, greedy, best), tr', g', r')"
  shows "\<exists>Q tau q_values.
           exploration_q_values tr g img_inputs float_inputs = Inr (q_values, tr', g')
         \<and> forward (model tr') (if 0 < epsilon tr then snd (reset_noise (model tr) g) else g)
             [img_inputs] [float_inputs] (iqn_k tr) None = Inr (Q, tau, g')
         \<and> tr' = tr\<lparr>model := (if 0 < epsilon tr then fst (reset_noise (model tr) g) else model tr)\<rparr>
         \<and> 0 < iqn_k tr \<and> length Q = nat (iqn_k tr) \<and> length tau = nat (iqn_k tr)
         \<and> length q_values = length (hd Q)
         \<and> (\<forall>k < length q_values.
               q_values ! k = sum_list (map (\<lambda>row. row ! k) Q) / real (length Q))
         \<and> q_values \<noteq> [] \<and> best = Max (set q_values)
         \<and> (if float_at r (ppos r) < epsilon tr
             then \<not> greedy \<and> a = bits_at r (Suc (ppos r)) mod n_actions (model tr)
                  \<and> a < n_actions (model tr)
             else greedy \<and> a < length q_values \<and> q_values ! a = Max (set q_values)
                  \<and> (\<forall>k < a. q_values ! k < q_values ! a))"
proof -
  from exploration_branches [OF assms] obtain q_values where
    q: "exploration_q_values tr g img_inputs float_inputs = Inr (q_values, tr', g')"
    and br: "q_values \<noteq> [] \<and> best = Max (set q_values)
         \<and> (if float_at r (ppos r) < epsilon tr
             then \<not> greedy \<and> a = bits_at r (Suc (ppos r)) mod n_actions (model tr)
                  \<and> a < n_actions (model tr)
             else greedy \<and> a < length q_values \<and> q_values ! a = Max (set q_values)
                  \<and> (\<forall>k < a. q_values ! k < q_values ! a))"
    by blast
  from exploration_q_values_mean [OF q] q br show ?thesis by blast
qed

theorem get_exploration_action_policy_witness:
  "get_exploration_action (example_trainer\<lparr>iqn_k := 2\<rparr>) example_rng example_py_rng [0] [0]
     = Inr ((0, True, 299 / 1600), example_trainer\<lparr>iqn_k := 2\<rparr>, example_rng\<lparr>tpos := 2\<rparr>,
            example_py_rng\<lparr>ppos := 1\<rparr>)
   \<and> forward example_agent example_rng [[0]] [[0]] 2 None
     = Inr ([[3 / 8, - (3 / 8)], [- (1 / 800), 1 / 800]], [0, 1 / 2], example_rng\<lparr>tpos := 2\<rparr>)
   \<and> (\<exists>q_values :: real list.
          exploration_q_values (example_trainer\<lparr>iqn_k := 2\<rparr>) example_rng [0] [0]
            = Inr (q_values, example_trainer\<lparr>iqn_k := 2\<rparr>, example_rng\<lparr>tpos := 2\<rparr>)
          \<and> length q_values = 2
          \<and> q_values ! 0 = (3 / 8 + - (1 / 800)) / 2 \<and> q_values ! 1 = (- (3 / 8) + 1 / 800) / 2
          \<and> q_values ! 0 = Max (set q_values) \<and> Max (set q_values) = 299 / 1600)
   \<and> get_exploration_action tied_trainer example_rng example_py_rng [0] [0]
     = Inr ((0, True, 0), tied_trainer, example_rng\<lparr>tpos := 1\<rparr>, example_py_rng\<lparr>ppos := 1\<rparr>)
   \<and> (\<exists>q_values :: real list.
          exploration_q_values tied_trainer example_rng [0] [0]
            = Inr (q_values, tied_trainer, example_rng\<lparr>tpos := 1\<rparr>)
          \<and> 0 < length q_values \<and> q_values ! 0 = Max (set q_values) \<and> Max (set q_values) = 0)
   \<and> get_exploration_action (example_trainer\<lparr>epsilon := 1\<rparr>) example_rng example_py_rng [0] [0]
     = Inr ((1, False, 3 / 8), example_trainer\<lparr>epsilon := 1\<rparr>, example_rng\<lparr>tpos := 1\<rparr>,
            example_py_rng\<lparr>ppos := 2\<rparr>)
   \<and> (1 :: nat) < n_actions (model (example_trainer\<lparr>epsilon := 1\<rparr>))"
proof -
  have avg: "\<not> float_at example_py_rng (ppos example_py_rng) < epsilon (example_trainer\<lparr>iqn_k := 2\<rparr>)"
    by (simp add: example_py_rng_def example_trainer_def)
  have tied: "\<not> float_at example_py_rng (ppos example_py_rng) < epsilon tied_trainer"
    by (simp add: example_py_rng_def tied_trainer_def example_trainer_def)
  have rand: "float_at example_py_rng (ppos example_py_rng) < epsilon (example_trainer\<lparr>epsilon := 1\<rparr>)"
    by (simp add: example_py_rng_def)
  have eps: "\<not> 0 < epsilon (example_trainer\<lparr>iqn_k := 2\<rparr>)" by (simp add: example_trainer_def)
  have mdl: "model (example_trainer\<lparr>iqn_k := 2\<rparr>) = example_agent" by (simp add: example_trainer_def)
  from get_exploration_action_policy [OF example_explore_avg] avg eps mdl
  obtain Q tau q_values where
    q: "exploration_q_values (example_trainer\<lparr>iqn_k := 2\<rparr>) example_rng [0] [0]
          = Inr (q_values, example_trainer\<lparr>iqn_k := 2\<rparr>, example_rng\<lparr>tpos := 2\<rparr>)"
    and fw: "forward example_agent example_rng [[0]] [[0]] 2 None = Inr (Q, tau, example_rng\<lparr>tpos := 2\<rparr>)"
    and len: "length q_values = length (hd Q)"
    and avgs: "\<forall>k < length q_values. q_values ! k = sum_list (map (\<lambda>row. row ! k) Q) / real (length Q)"
    and mx: "299 / 1600 = Max (set q_values)" "q_values ! 0 = Max (set q_values)"
    by auto
  from fw have Q: "Q = [[3 / 8, - (3 / 8)], [- (1 / 800), 1 / 800]]"
    by (simp add: example_forward_sampled)
  from len Q have l2: "length q_values = 2" by simp
  from avgs [rule_format, of 0] avgs [rule_format, of 1] l2 Q
  have "q_values ! 0 = (3 / 8 + - (1 / 800)) / 2" "q_values ! 1 = (- (3 / 8) + 1 / 800) / 2"
    by simp_all
  with q l2 mx have first: "\<exists>q_values :: real list.
          exploration_q_values (example_trainer\<lparr>iqn_k := 2\<rparr>) example_rng [0] [0]
            = Inr (q_values, example_trainer\<lparr>iqn_k := 2\<rparr>, example_rng\<lparr>tpos := 2\<rparr>)
          \<and> length q_values = 2
          \<and> q_values ! 0 = (3 / 8 + - (1 / 800)) / 2 \<and> q_values ! 1 = (- (3 / 8) + 1 / 800) / 2
          \<and> q_values ! 0 = Max (set q_values) \<and> Max (set q_values) = 299 / 1600"
    by (intro exI [of _ q_values]) simp
  from get_exploration_action_policy [OF example_explore_tied] tied
  have second: "\<exists>q_values :: real list.
          exploration_q_values tied_trainer example_rng [0] [0]
            = Inr (q_values, tied_trainer, example_rng\<lparr>tpos := 1\<rparr>)
          \<and> 0 < length q_values \<and> q_values ! 0 = Max (set q_values) \<and> Max (set q_values) = 0"
    by auto
  from get_exploration_action_policy [OF example_explore_random] rand
  have third: "(1 :: nat) < n_actions (model (example_trainer\<lparr>epsilon := 1\<rparr>))"
    by auto
  show ?thesis
    by (intro conjI example_explore_avg example_forward_sampled first example_explore_tied second
        example_explore_random third)
qed

section \<open>Determinism on frozen noise\<close>

text \<open>
  Claim C8, as stated, fails: with \<open>epsilon = 0\<close> two consecutive calls of
  \<open>get_exploration_action\<close> on the same observation, with no \<open>reset_noise\<close> between
  them, return different actions and values, because each forward pass with \<open>tau = None\<close>
  samples fresh quantile fractions; so do two such forward passes.
\<close>

theorem frozen_noise_counterexample:
  "epsilon example_trainer = 0
   \<and> get_exploration_action example_trainer example_rng example_py_rng [0] [0]
       = Inr ((0, True, 3 / 8), example_trainer, example_rng\<lparr>tpos := 1\<rparr>, example_py_rng\<lparr>ppos := 1\<rparr>)
   \<and> get_exploration_action example_trainer (example_rng\<lparr>tpos := 1\<rparr>) (example_py_rng\<lparr>ppos := 1\<rparr>) [0] [0]
       = Inr ((1, True, 1 / 800), example_trainer, example_rng\<lparr>tpos := 2\<rparr>, example_py_rng\<lparr>ppos := 2\<rparr>)
   \<and> forward example_agent example_rng [[0]] [[0]] 1 None
       = Inr ([[3 / 8, - (3 / 8)]], [0], example_rng\<lparr>tpos := 1\<rparr>)
   \<and> forward example_agent (example_rng\<lparr>tpos := 1\<rparr>) [[0]] [[0]] 1 None
       = Inr ([[- (1 / 800), 1 / 800]], [1 / 2], example_rng\<lparr>tpos := 2\<rparr>)"
  using example_explore_first example_explore_second example_forward_first example_forward_second
  by (simp add: example_trainer_def)

text \<open>
  Claim C8, amended. A forward pass that is given \<open>tau\<close> draws nothing: its outputs are
  the same from every generator state, and the generator is left as it was. With
  \<open>epsilon \<le> 0\<close>, \<open>get_exploration_action\<close> leaves the trainer, and so the noise, as it
  was, and returns the same result whenever the quantile fractions it samples are the same.
\<close>

theorem frozen_noise_determinism:
  "(forward ag g img float_inputs num_quantiles (Some tau) = Inr (Q, tau_out, g')
      \<longrightarrow> g' = g \<and> (\<forall>g2. forward ag g2 img float_inputs num_quantiles (Some tau) = Inr (Q, tau_out, g2)))
   \<and> (epsilon tr \<le> 0 \<and> get_exploration_action tr g r img_inputs float_row = Inr (res, tr', g'', r')
      \<longrightarrow> tr' = tr
          \<and> (\<forall>g2. fst (torch_uniform (nat (iqn_k tr)) g2) = fst (torch_uniform (nat (iqn_k tr)) g)
                \<longrightarrow> get_exploration_action tr g2 r img_inputs float_row
                      = Inr (res, tr, snd (torch_uniform (nat (iqn_k tr)) g2), r')))"
proof (rule conjI; rule impI)
  assume a: "forward ag g img float_inputs num_quantiles (Some tau) = Inr (Q, tau_out, g')"
  from forward_Some_generator [OF a]
  show "g' = g \<and> (\<forall>g2. forward ag g2 img float_inputs num_quantiles (Some tau) = Inr (Q, tau_out, g2))"
    by simp
next
  assume b: "epsilon tr \<le> 0 \<and> get_exploration_action tr g r img_inputs float_row = Inr (res, tr', g'', r')"
  then obtain q_values tr1 g1 where
    q: "exploration_q_values tr g img_inputs float_row = Inr (q_values, tr1, g1)"
    and rest: "(\<lambda>(q_values, tr1, g1).
       let (u, r1) = py_random r in
       if u < epsilon tr1 then
         ebind (py_randrange (n_actions (model tr1)) r1) (\<lambda>(a, r2).
         ebind (np_max q_values) (\<lambda>best.
         Inr ((a, False, best), tr1, g1, r2)))
       else
         ebind (np_argmax q_values) (\<lambda>a.
         ebind (np_max q_values) (\<lambda>best.
         Inr ((a, True, best), tr1, g1, r1)))) (q_values, tr1, g1) = Inr (res, tr', g'', r')"
    unfolding get_exploration_action_def ebind_Inr_iff by auto
  from b have eps: "epsilon tr \<le> 0" by simp
  have tr1: "tr1 = tr" using exploration_q_values_frozen(1) [OF eps q refl] .
  have tr': "tr' = tr"
    using rest tr1 by (auto simp: Let_def ebind_Inr_iff split: prod.splits if_splits)
  show "tr' = tr
          \<and> (\<forall>g2. fst (torch_uniform (nat (iqn_k tr)) g2) = fst (torch_uniform (nat (iqn_k tr)) g)
                \<longrightarrow> get_exploration_action tr g2 r img_inputs float_row
                      = Inr (res, tr, snd (torch_uniform (nat (iqn_k tr)) g2), r'))"
  proof (intro conjI allI impI)
    show "tr' = tr" by (rule tr')
  next
    fix g2
    assume same: "fst (torch_uniform (nat (iqn_k tr)) g2) = fst (torch_uniform (nat (iqn_k tr)) g)"
    note q2 = exploration_q_values_frozen(2) [OF eps q same]
    show "get_exploration_action tr g2 r img_inputs float_row
            = Inr (res, tr, snd (torch_uniform (nat (iqn_k tr)) g2), r')"
      using rest tr1 tr' unfolding get_exploration_action_def q2
      by (auto simp: Let_def ebind_Inr_iff split: prod.splits if_splits)
  qed
qed

theorem frozen_noise_determinism_witness:
  "forward example_agent example_rng [[0]] [[0]] 2 (Some [0, 1 / 2])
     = Inr ([[3 / 8, - (3 / 8)], [- (1 / 800), 1 / 800]], [0, 1 / 2], example_rng)
   \<and> forward example_agent (example_rng\<lparr>tpos := 5\<rparr>) [[0]] [[0]] 2 (Some [0, 1 / 2])
     = Inr ([[3 / 8, - (3 / 8)], [- (1 / 800), 1 / 800]], [0, 1 / 2], example_rng\<lparr>tpos := 5\<rparr>)
   \<and> epsilon example_trainer \<le> 0
   \<and> get_exploration_action example_trainer example_rng example_py_rng [0] [0]
       = Inr ((0, True, 3 / 8), example_trainer, example_rng\<lparr>tpos := 1\<rparr>, example_py_rng\<lparr>ppos := 1\<rparr>)
   \<and> get_exploration_action example_trainer (example_rng\<lparr>tpos := 2\<rparr>) example_py_rng [0] [0]
       = Inr ((0, True, 3 / 8), example_trainer, example_rng\<lparr>tpos := 3\<rparr>, example_py_rng\<lparr>ppos := 1\<rparr>)"
proof -
  have eps: "epsilon example_trainer \<le> 0" by (simp add: example_trainer_def)
  have k: "iqn_k example_trainer = 1" by (simp add: example_trainer_def)
  have same: "fst (torch_uniform (nat (iqn_k example_trainer)) (example_rng\<lparr>tpos := 2\<rparr>))
                = fst (torch_uniform (nat (iqn_k example_trainer)) example_rng)"
    by (simp add: k torch_uniform_def example_rng_def)
  have adv: "snd (torch_uniform (nat (iqn_k example_trainer)) (example_rng\<lparr>tpos := 2\<rparr>))
                = example_rng\<lparr>tpos := 3\<rparr>"
    by (simp add: k torch_uniform_def example_rng_def)
  note fw = frozen_noise_determinism [THEN conjunct1, rule_format, OF example_forward [of example_rng]]
  note ex = frozen_noise_determinism
    [THEN conjunct2, rule_format, OF conjI [OF eps example_explore_first],
     THEN conjunct2, rule_format, OF same]
  have "forward example_agent (example_rng\<lparr>tpos := 5\<rparr>) [[0]] [[0]] 2 (Some [0, 1 / 2])
     = Inr ([[3 / 8, - (3 / 8)], [- (1 / 800), 1 / 800]], [0, 1 / 2], example_rng\<lparr>tpos := 5\<rparr>)"
    using fw by blast
  moreover have "get_exploration_action example_trainer (example_rng\<lparr>tpos := 2\<rparr>) example_py_rng [0] [0]
       = Inr ((0, True, 3 / 8), example_trainer, example_rng\<lparr>tpos := 3\<rparr>, example_py_rng\<lparr>ppos := 1\<rparr>)"
    using ex adv by simp
  ultimately show ?thesis using eps example_explore_first example_forward [of example_rng] by blast
qed

section \<open>Construction of the trainer\<close>

text \<open>
  Claim C9, as stated, fails: \<open>Trainer.__init__\<close> accepts a negative \<open>iqn_k\<close>, a zero
  \<open>iqn_n\<close> and a negative \<open>iqn_kappa\<close>.
\<close>

theorem Trainer_init_counterexample:
  "Trainer_init example_agent example_agent () () 1 (- 1) 0 (- 1) 0 (1 / 2) 3 (1 / 10)
     = Inr \<lparr> model = example_agent, model2 = example_agent, optimizer = (), scaler = (),
             batch_size = 1, iqn_k = - 1, iqn_n = 0, iqn_kappa = - 1, epsilon = 0,
             gamma = 1 / 2, n_steps = 3, AL_alpha = 1 / 10 \<rparr>"
  by (simp add: Trainer_init_def)

text \<open>
  Claim C9, amended. \<open>Trainer.__init__\<close> checks nothing: it succeeds on every
  configuration and stores each argument as given. A negative \<open>iqn_n\<close> raises only in
  \<open>train_on_batch\<close>, a negative \<open>iqn_k\<close> only in \<open>get_exploration_action\<close>.
\<close>

theorem Trainer_init_unchecked:
  "\<exists>tr. Trainer_init model_arg model2_arg optimizer_arg scaler_arg batch_size_arg iqn_k_arg
            iqn_n_arg iqn_kappa_arg epsilon_arg gamma_arg n_steps_arg AL_alpha_arg = Inr tr
     \<and> model tr = model_arg \<and> model2 tr = model2_arg \<and> optimizer tr = optimizer_arg
     \<and> scaler tr = scaler_arg \<and> batch_size tr = batch_size_arg \<and> iqn_k tr = iqn_k_arg
     \<and> iqn_n tr = iqn_n_arg \<and> iqn_kappa tr = iqn_kappa_arg \<and> epsilon tr = epsilon_arg
     \<and> gamma tr = gamma_arg \<and> n_steps tr = n_steps_arg \<and> AL_alpha tr = AL_alpha_arg
     \<and> (iqn_n_arg < 0 \<longrightarrow> train_on_batch tr g batch is_weights = Inl InvalidDim)
     \<and> (iqn_k_arg < 0 \<longrightarrow> (\<exists>e. get_exploration_action tr g r img_inputs float_row = Inl e))"
  by (auto simp: Trainer_init_def intro: negative_iqn_n_raises negative_iqn_k_raises)

theorem Trainer_init_unchecked_witness:
  "\<exists>tr. Trainer_init example_agent example_agent () () 1 (- 1) (- 1) 0 0 (1 / 2) 3 (1 / 10) = Inr tr
     \<and> iqn_k tr = - 1 \<and> iqn_n tr = - 1 \<and> iqn_kappa tr = 0
     \<and> train_on_batch tr example_rng [example_transition] [1] = Inl InvalidDim
     \<and> (\<exists>e. get_exploration_action tr example_rng example_py_rng [0] [0] = Inl e)"
  using Trainer_init_unchecked
    [of example_agent example_agent "()" "()" 1 "- 1" "- 1" 0 0 "1 / 2" 3 "1 / 10"
        example_rng "[example_transition]" "[1]" example_py_rng "[0]" "[0]"]
  by auto

section \<open>The training target\<close>

text \<open>
  Claim C2. Lines 236 to 241, on rewards and done flags replicated as by lines 180 to 184
  and a valid \<^verbatim>\<open>pow(gamma, n_steps)\<close>: for every batch item \<open>b\<close> and quantile sample \<open>i\<close> the
  target is the reward when the transition is done, and the reward plus
  \<open>gamma ^ n_steps\<close> times the next-state value at \<open>a'\<close> (row \<open>i * batch_size + b\<close>) when
  it is not, minus in both cases \<open>AL_alpha * min (v_s - q_s_a) (v_stpot - q_stpot_a)\<close> of
  the item. So the row of a done transition is its reward minus the correction, whatever
  \<open>gamma\<close>, \<open>n_steps\<close> and the gathered next-state values are.
\<close>

theorem outputs_target_done_rows:
  assumes "iqn_n tr = int N" "0 < N" "batch_size tr = int B"
    and "length rs = B" "length ds = B" "length q_stpot_atpot = N * B"
    and "length v_s = B" "length q_s_a = B" "length v_stpot = B" "length q_stpot_a = B"
    and "\<not> (gamma tr = 0 \<and> n_steps tr < 0)"
  shows "\<exists>T. outputs_target_of tr (concat (replicate N rs)) (concat (replicate N ds)) q_stpot_atpot
                 v_s q_s_a v_stpot q_stpot_a = Inr T
           \<and> T = map (\<lambda>b. map (\<lambda>i.
                    (if ds ! b then rs ! b
                     else rs ! b + gamma tr powi n_steps tr * q_stpot_atpot ! (i * B + b))
                    - AL_alpha tr * min (v_s ! b - q_s_a ! b) (v_stpot ! b - q_stpot_a ! b))
                  [0 ..< N]) [0 ..< B]
           \<and> (\<forall>b < B. ds ! b \<longrightarrow>
                 T ! b = replicate N
                   (rs ! b - AL_alpha tr * min (v_s ! b - q_s_a ! b) (v_stpot ! b - q_stpot_a ! b)))"
  using outputs_target_value [OF assms] by (simp add: map_replicate_const)

theorem outputs_target_done_rows_witness:
  "iqn_n (example_trainer\<lparr>batch_size := 2\<rparr>) = int 2 \<and> batch_size (example_trainer\<lparr>batch_size := 2\<rparr>) = int 2
   \<and> \<not> (gamma (example_trainer\<lparr>batch_size := 2\<rparr>) = 0 \<and> n_steps (example_trainer\<lparr>batch_size := 2\<rparr>) < 0)
   \<and> outputs_target_of (example_trainer\<lparr>batch_size := 2\<rparr>)
         (concat (replicate 2 [1, 5])) (concat (replicate 2 [False, True]))
         [10, 20, 30, 40] [3, 4] [1, 3] [5, 6] [4, 2]
       = Inr [[43 / 20, 93 / 20], [49 / 10, 49 / 10]]
   \<and> [[43 / 20, 93 / 20], [49 / 10, 49 / 10 :: real]] ! 1 = replicate 2 (5 - 1 / 10 * min (4 - 3) (6 - 2))"
proof -
  let ?tr = "example_trainer\<lparr>batch_size := 2\<rparr>"
  have h: "iqn_n ?tr = int 2" "batch_size ?tr = int 2" "\<not> (gamma ?tr = 0 \<and> n_steps ?tr < 0)"
    by (simp_all add: example_trainer_def)
  have ex: "outputs_target_of ?tr (concat (replicate 2 [1, 5])) (concat (replicate 2 [False, True]))
         [10, 20, 30, 40] [3, 4] [1, 3] [5, 6] [4, 2]
       = Inr [[43 / 20, 93 / 20], [49 / 10, 49 / 10]]"
    using example_outputs_target by (simp add: replicate_2)
  from outputs_target_done_rows
    [of ?tr 2 2 "[1, 5]" "[False, True]" "[10, 20, 30, 40]" "[3, 4]" "[1, 3]" "[5, 6]" "[4, 2]",
     OF h(1) _ h(2) _ _ _ _ _ _ _ h(3)]
  obtain T where
    T: "outputs_target_of ?tr (concat (replicate 2 [1, 5])) (concat (replicate 2 [False, True]))
         [10, 20, 30, 40] [3, 4] [1, 3] [5, 6] [4, 2] = Inr T"
    and done_rows: "\<forall>b < 2. [False, True] ! b \<longrightarrow>
          T ! b = replicate 2 ([1, 5] ! b - AL_alpha ?tr * min ([3, 4] ! b - [1, 3] ! b) ([5, 6] ! b - [4, 2] ! b))"
    by auto
  from T ex have "T = [[43 / 20, 93 / 20], [49 / 10, 49 / 10]]" by simp
  moreover from done_rows have "T ! 1 = replicate 2 (5 - AL_alpha ?tr * min (4 - 3) (6 - 2))"
    by simp
  ultimately have "[[43 / 20, 93 / 20], [49 / 10, 49 / 10 :: real]] ! 1 = replicate 2 (5 - 1 / 10 * min (4 - 3) (6 - 2))"
    by (simp add: example_trainer_def)
  with h ex show ?thesis by blast
qed

section \<open>The correction of the target\<close>

text \<open>
  Claim C4. No correction is subtracted in \<open>train_on_batch\<close>: the taken-action values
  \<open>q_stpot_a\<close> and \<open>q_s_a\<close> that the two advantage gaps need are gathered, at lines 215 and
  230, with the one-dimensional \<open>actions\<close> as the index into a two-dimensional quantile
  average, and \<^verbatim>\<open>torch.gather\<close> raises on such an index. So for every trainer, tensor and
  list of actions neither block returns, and the step raises for every batch; at the
  transition of the example both raise for the rank of the index. With the index
  \<^verbatim>\<open>actions[:, None]\<close>, which line 245 uses, both blocks return, each value is at most the
  row maximum and the correction is non-negative (lemma \<open>pal_correction_nonneg_column\<close>).
\<close>

theorem pal_gathers_raise:
  "(\<exists>e. pal_next tr q_stpot_alla (Idx1 actions) = Inl e)
   \<and> (\<exists>e. pal_cur tr outputs (Idx1 actions) = Inl e)
   \<and> (\<exists>e. train_on_batch tr g batch is_weights = Inl e)
   \<and> pal_next example_trainer [[3 / 8, - (3 / 8)], [- (1 / 800), 1 / 800]]
        (Idx1 (map action [example_transition])) = Inl RankMismatch
   \<and> pal_cur example_trainer [[3 / 8, - (3 / 8)], [- (1 / 800), 1 / 800]]
        (Idx1 (map action [example_transition])) = Inl RankMismatch"
proof -
  have "\<exists>e. pal_next tr q_stpot_alla (Idx1 actions) = Inl e"
    by (rule not_Inr_Inl) (rule pal_next_Idx1)
  moreover have "\<exists>e. pal_cur tr outputs (Idx1 actions) = Inl e"
    by (rule not_Inr_Inl) (rule pal_cur_Idx1)
  moreover have "\<exists>e. train_on_batch tr g batch is_weights = Inl e"
    by (rule not_Inr_Inl) (rule train_on_batch_never_returns)
  ultimately show ?thesis
    by (simp add: example_pal_next example_pal_cur_flat example_transition_def)
qed

section \<open>The quantile regression loss\<close>

text \<open>
  Claim C1. Lines 245 to 266, on a target of shape \<open>(batch_size, iqn_n, 1)\<close> and
  predictions, actions and quantile fractions of \<open>iqn_n * batch_size\<close> rows: the error
  tensor has shape \<open>(batch_size, iqn_n, iqn_n, 1)\<close> and its entry \<open>[b, i, j]\<close> is target
  quantile \<open>i\<close> minus predicted quantile \<open>j\<close> of item \<open>b\<close>; the step yields one loss for
  each batch item, and that loss is the sum over the target-quantile axis, averaged over
  the predicted-quantile axis, of the pinball loss of the errors. (The source sums over
  axis 2 and averages over axis 1; over exact arithmetic the two orders agree.)
\<close>

theorem quantile_loss_reduction:
  assumes "iqn_n tr = int N" "0 < N" "batch_size tr = int B" "iqn_kappa tr \<noteq> 0"
    and "length outputs_target = B" "\<forall>b < B. length (outputs_target ! b) = N"
    and "length outputs = N * B" "length actions_n = N * B" "length tau = N * B"
    and "\<forall>k < N * B. actions_n ! k < length (outputs ! k)"
  shows "\<exists>pred.
           pred = map (\<lambda>b. map (\<lambda>j. outputs ! (j * B + b) ! (actions_n ! (j * B + b))) [0 ..< N]) [0 ..< B]
         \<and> TD_Error_of outputs_target pred
             = Inr (map (\<lambda>b. map (\<lambda>i. map (\<lambda>j.
                      outputs_target ! b ! i - outputs ! (j * B + b) ! (actions_n ! (j * B + b)))
                    [0 ..< N]) [0 ..< N]) [0 ..< B])
         \<and> quantile_loss tr outputs_target outputs actions_n tau
             = Inr (map (\<lambda>b. spec_item_loss (map (\<lambda>i. map (\<lambda>j.
                      pinball (iqn_kappa tr) (tau ! (j * B + b))
                        (outputs_target ! b ! i - outputs ! (j * B + b) ! (actions_n ! (j * B + b))))
                    [0 ..< N]) [0 ..< N])) [0 ..< B])"
proof -
  let ?kappa = "iqn_kappa tr"
  let ?p = "\<lambda>b j. outputs ! (j * B + b) ! (actions_n ! (j * B + b))"
  let ?taken = "map (\<lambda>k. outputs ! k ! (actions_n ! k)) [0 ..< length actions_n]"
  let ?pred = "map (\<lambda>b. map (\<lambda>j. ?p b j) [0 ..< N]) [0 ..< B]"
  let ?d = "\<lambda>b i j. outputs_target ! b ! i - ?p b j"
  let ?TD = "map (\<lambda>b. map (\<lambda>i. map (\<lambda>j. ?d b i j) [0 ..< N]) [0 ..< N]) [0 ..< B]"
  let ?tau4 = "map (\<lambda>b. map (\<lambda>i. map (\<lambda>j. tau ! (j * B + b)) [0 ..< N]) [0 ..< N]) [0 ..< B]"
  have g: "torch_gather_dim1 outputs (IdxCol actions_n) = Inr ?taken"
    using assms(7,8,10) by (intro torch_gather_dim1_col) simp_all
  have lt: "length ?taken = N * B" using assms(8) by simp
  have pred: "map (\<lambda>b. map (\<lambda>j. ?taken ! (j * B + b)) [0 ..< N]) [0 ..< B] = ?pred"
    using assms(8) by (intro map_cong refl) (simp add: index_bound)
  have td: "TD_Error_of outputs_target ?pred = Inr ?TD"
  proof -
    have "TD_Error_of (map (\<lambda>b. map (\<lambda>i. outputs_target ! b ! i) [0 ..< N]) [0 ..< B]) ?pred = Inr ?TD"
      unfolding TD_Error_of_def by (simp add: bop_tabulate comp_def)
    then show ?thesis using tabulate2_id [OF assms(5,6)] by simp
  qed
  have ex: "sequence (map (expand_axis1 (int N))
              (map (\<lambda>b. map (\<lambda>j. tau ! (j * B + b)) [0 ..< N]) [0 ..< B])) = Inr ?tau4"
    unfolding expand_axis1_rows [OF assms(2)] by (simp add: comp_def)
  have "quantile_loss tr outputs_target outputs actions_n tau
          = ebind (bop3 (\<lambda>d t. if d < 0 then 1 - t else t) ?TD ?tau4) (\<lambda>weight.
            ebind (bop3 (*) weight (map (map (map (huber ?kappa))) ?TD)) (\<lambda>weighted.
            ebind (sequence (map (\<lambda>item. sequence (map (\<lambda>row. sequence (map (\<lambda>x. fdiv x ?kappa) row)) item)) weighted))
              reduce_loss))"
    unfolding quantile_loss_def assms(1,3) g ebind_Inr
      reshape_unit_nonneg [OF lt] reshape_unit_nonneg [OF assms(9)]
      transpose01_tabulate [OF assms(2)] pred td Let_def ex ..
  also have "\<dots> = reduce_loss (map (\<lambda>b. map (\<lambda>i. map (\<lambda>j.
                       pinball ?kappa (tau ! (j * B + b)) (?d b i j)) [0 ..< N]) [0 ..< N]) [0 ..< B])"
    using assms(4)
    by (simp add: bop3_tabulate comp_def fdiv_tabulate pinball_def)
  also have "\<dots> = Inr (map (\<lambda>b. spec_item_loss (map (\<lambda>i. map (\<lambda>j.
                       pinball ?kappa (tau ! (j * B + b)) (?d b i j)) [0 ..< N]) [0 ..< N])) [0 ..< B])"
    by (rule reduce_loss_tabulate [OF assms(2)])
  finally show ?thesis using td by blast
qed

theorem quantile_loss_reduction_witness:
  "iqn_n (example_trainer\<lparr>batch_size := 2\<rparr>) = int 2
   \<and> batch_size (example_trainer\<lparr>batch_size := 2\<rparr>) = int 2
   \<and> iqn_kappa (example_trainer\<lparr>batch_size := 2\<rparr>) \<noteq> 0
   \<and> TD_Error_of [[1, 2], [3, 4]] [[2, 8], [4, 10]] = Inr [[[- 1, - 7], [0, - 6]], [[- 1, - 7], [0, - 6]]]
   \<and> quantile_loss (example_trainer\<lparr>batch_size := 2\<rparr>) [[1, 2], [3, 4]]
        [[1, 2, 3], [4, 5, 6], [7, 8, 9], [10, 11, 12]] [1, 0, 1, 0] [1 / 10, 2 / 10, 3 / 10, 4 / 10]
       = Inr [spec_item_loss [[(1 - 1 / 10) * (1 / 2), (1 - 3 / 10) * (13 / 2)], [0, (1 - 3 / 10) * (11 / 2)]],
              spec_item_loss [[(1 - 2 / 10) * (1 / 2), (1 - 4 / 10) * (13 / 2)], [0, (1 - 4 / 10) * (11 / 2)]]]
   \<and> quantile_loss (example_trainer\<lparr>batch_size := 2\<rparr>) [[1, 2], [3, 4]]
        [[1, 2, 3], [4, 5, 6], [7, 8, 9], [10, 11, 12]] [1, 0, 1, 0] [1 / 10, 2 / 10, 3 / 10, 4 / 10]
       = Inr [177 / 40, 19 / 5]"
proof -
  let ?tr = "example_trainer\<lparr>batch_size := 2\<rparr>"
  let ?T = "[[1, 2], [3, 4]] :: real list list"
  let ?O = "[[1, 2, 3], [4, 5, 6], [7, 8, 9], [10, 11, 12]] :: real list list"
  let ?A = "[1, 0, 1, 0] :: nat list"
  let ?tau = "[1 / 10, 2 / 10, 3 / 10, 4 / 10] :: real list"
  have h: "iqn_n ?tr = int 2" "0 < (2 :: nat)" "batch_size ?tr = int 2" "iqn_kappa ?tr \<noteq> 0"
    by (simp_all add: example_trainer_def)
  have s: "length ?T = 2" "\<forall>b < 2. length (?T ! b) = 2" "length ?O = 2 * 2" "length ?A = 2 * 2"
      "length ?tau = 2 * 2" "\<forall>k < 2 * 2. ?A ! k < length (?O ! k)"
    by (simp_all add: nth_Cons split: nat.splits)
  note th = quantile_loss_reduction [OF h s]
  from th have td: "TD_Error_of ?T [[2, 8], [4, 10]] = Inr [[[- 1, - 7], [0, - 6]], [[- 1, - 7], [0, - 6]]]"
    by (simp add: upt_rec)
  from th have ql: "quantile_loss ?tr ?T ?O ?A ?tau
       = Inr [spec_item_loss [[(1 - 1 / 10) * (1 / 2), (1 - 3 / 10) * (13 / 2)], [0, (1 - 3 / 10) * (11 / 2)]],
              spec_item_loss [[(1 - 2 / 10) * (1 / 2), (1 - 4 / 10) * (13 / 2)], [0, (1 - 4 / 10) * (11 / 2)]]]"
    by (simp add: upt_rec pinball_def huber_def example_trainer_def)
  from h td ql example_quantile_loss show ?thesis by blast
qed


section \<open>The quantile fractions of the two passes\<close>


end
